theory Spec2Isabelle
  imports Main "HOL-Library.AList" "HOL-Library.Sublist"
begin

section \<open>Python values shared by both templates\<close>

text \<open>
  Python strings are modelled as \<open>string\<close>, the list of the bytes of their UTF-8
  encoding; every literal of the two templates that is modelled here is ASCII.
  A Python \<open>dict\<close> keeps its keys in insertion order and assigning to an existing key
  keeps that key's position: this is an association list with distinct keys, written
  with \<open>AList.update\<close>, and read with \<open>map_of\<close>.
  The exceptions the modelled code can raise are values of the type \<open>error\<close>, and a
  function that can raise returns \<open>error + 'a\<close>.
\<close>

datatype error = ValueError string | KeyError string

type_synonym ('k, 'v) dict = "('k \<times> 'v) list"

section \<open>cli_template.py: the derivatives flag\<close>

text \<open>
  \<open>pathlib.Path(path)\<close> is the constructor \<open>Path\<close> applied to the text it was given;
  the normalisation pathlib applies when it compares or prints a path is not modelled.
\<close>

datatype path = Path string

text \<open>
  \<open>s.split(sep, 1)\<close> for a one-character separator: the text before the first
  separator and the whole text after it, or the string alone when it has no separator.
\<close>

definition str_split1 :: "char \<Rightarrow> string \<Rightarrow> string list" where
  "str_split1 sep s =
     (if sep \<in> set s
      then [takeWhile (\<lambda>c. c \<noteq> sep) s, tl (dropWhile (\<lambda>c. c \<noteq> sep) s)]
      else [s])"

text \<open>
  The \<open>for\<close> loop of \<open>parse_derivatives_arg\<close>, with the dictionary built so far. The
  test \<open>"=" not in derivative_arg\<close> raises; the tuple assignment
  \<open>name, path = derivative_arg.split("=", 1)\<close> would raise when the split returned
  one element only.
\<close>

fun parse_derivatives_loop ::
  "string list \<Rightarrow> (string, path) dict \<Rightarrow> error + (string, path) dict" where
  "parse_derivatives_loop [] derivatives_dict = Inr derivatives_dict"
| "parse_derivatives_loop (derivative_arg # rest) derivatives_dict =
     (if CHR ''='' \<notin> set derivative_arg
      then Inl (ValueError (''Invalid derivatives argument: '' @ derivative_arg @
             ''. Expected format: name=path (e.g., preprocessed=/path/to/data)''))
      else (case str_split1 CHR ''='' derivative_arg of
              [name, path] \<Rightarrow>
                parse_derivatives_loop rest (AList.update name (Path path) derivatives_dict)
            | _ \<Rightarrow> Inl (ValueError ''not enough values to unpack (expected 2, got 1)'')))"

definition parse_derivatives_arg :: "string list \<Rightarrow> error + (string, path) dict" where
  "parse_derivatives_arg derivatives_list =
     (if derivatives_list = [] then Inr []
      else parse_derivatives_loop derivatives_list [])"

text \<open>The key and the path the loop stores for a token that has a separator.\<close>

definition token_name :: "string \<Rightarrow> string" where
  "token_name t = takeWhile (\<lambda>c. c \<noteq> CHR ''='') t"

definition token_path :: "string \<Rightarrow> path" where
  "token_path t = Path (tl (dropWhile (\<lambda>c. c \<noteq> CHR ''='') t))"

section \<open>html_report_template.py: values, strings and the clock\<close>

text \<open>
  The metadata dictionary is typed \<open>Dict[str, Any]\<close>. Its values are modelled by the
  Python values below (strings, integers, booleans and \<open>None\<close>), with their truth
  value (\<open>if value:\<close>) and the text an f-string prints for them (\<open>{value}\<close>).
\<close>

datatype pyval = PStr string | PInt int | PBool bool | PNone

fun truthy :: "pyval \<Rightarrow> bool" where
  "truthy (PStr s) = (s \<noteq> [])"
| "truthy (PInt i) = (i \<noteq> 0)"
| "truthy (PBool b) = b"
| "truthy PNone = False"

fun str_nat :: "nat \<Rightarrow> string" where
  "str_nat n =
     (if n < 10 then [''0123456789'' ! n]
      else str_nat (n div 10) @ [''0123456789'' ! (n mod 10)])"

declare str_nat.simps [simp del]

fun py_str :: "pyval \<Rightarrow> string" where
  "py_str (PStr s) = s"
| "py_str (PInt i) = (if i < 0 then ''-'' @ str_nat (nat (- i)) else str_nat (nat i))"
| "py_str (PBool b) = (if b then ''True'' else ''False'')"
| "py_str PNone = ''None''"

text \<open>
  \<open>str.lower()\<close> and \<open>str.title()\<close> on the ASCII letters. A code point beyond ASCII is
  a run of bytes above 127 here and is left as it is. For the comparison of
  \<open>section_name.lower()\<close> with the five section names this is exact for every Python
  string: none of the five names has a non-ASCII character or the letter \<open>k\<close>, and the
  lower case of a non-ASCII code point has a non-ASCII code point or (for the Kelvin
  sign) is \<open>k\<close>. For \<open>str.title()\<close> it is exact on ASCII strings.
\<close>

definition ascii_uppercase :: string where
  "ascii_uppercase = ''ABCDEFGHIJKLMNOPQRSTUVWXYZ''"

definition ascii_lowercase :: string where
  "ascii_lowercase = ''abcdefghijklmnopqrstuvwxyz''"

definition lower_char :: "char \<Rightarrow> char" where
  "lower_char c =
     (case map_of (zip ascii_uppercase ascii_lowercase) c of Some l \<Rightarrow> l | None \<Rightarrow> c)"

definition upper_char :: "char \<Rightarrow> char" where
  "upper_char c =
     (case map_of (zip ascii_lowercase ascii_uppercase) c of Some u \<Rightarrow> u | None \<Rightarrow> c)"

definition is_cased :: "char \<Rightarrow> bool" where
  "is_cased c \<longleftrightarrow> c \<in> set ascii_uppercase \<or> c \<in> set ascii_lowercase"

definition str_lower :: "string \<Rightarrow> string" where
  "str_lower s = map lower_char s"

text \<open>
  \<open>str.title()\<close>: a character that follows a cased character is lower-cased, any
  other character is title-cased.
\<close>

fun title_from :: "bool \<Rightarrow> string \<Rightarrow> string" where
  "title_from previous_is_cased [] = []"
| "title_from previous_is_cased (c # cs) =
     (if previous_is_cased then lower_char c else upper_char c) # title_from (is_cased c) cs"

definition str_title :: "string \<Rightarrow> string" where
  "str_title s = title_from False s"

text \<open>
  \<open>datetime.now()\<close> reads the system clock. The clock is a function from the number of
  readings made so far to the time the next reading returns; a function that reads the
  clock takes the number of readings and returns it updated. A frozen clock is a
  constant function.
\<close>

record datetime =
  year :: nat
  month :: nat
  day :: nat
  hour :: nat
  minute :: nat
  second :: nat

type_synonym clock = "nat \<Rightarrow> datetime"

definition datetime_now :: "clock \<Rightarrow> nat \<Rightarrow> datetime \<times> nat" where
  "datetime_now clk n = (clk n, Suc n)"

definition frozen_clock :: "datetime \<Rightarrow> clock" where
  "frozen_clock t = (\<lambda>n. t)"

definition zero_pad :: "nat \<Rightarrow> string \<Rightarrow> string" where
  "zero_pad width s = replicate (width - length s) CHR ''0'' @ s"

text \<open>\<open>strftime('%Y-%m-%d %H:%M:%S')\<close>, for a year of four digits.\<close>

definition strftime :: "datetime \<Rightarrow> string" where
  "strftime t =
     zero_pad 4 (str_nat (year t)) @ ''-'' @ zero_pad 2 (str_nat (month t)) @ ''-'' @
     zero_pad 2 (str_nat (day t)) @ '' '' @ zero_pad 2 (str_nat (hour t)) @ '':'' @
     zero_pad 2 (str_nat (minute t)) @ '':'' @ zero_pad 2 (str_nat (second t))"

section \<open>html_report_template.py: format strings\<close>

text \<open>
  A format string is written as \<open>str.format\<close> reads it: the list of its literal runs
  and of its replacement fields \<open>{name}\<close>, one row for each line of the source. The
  escapes \<open>{{\<close> and \<open>}}\<close> of the source are the braces \<open>{\<close> and \<open>}\<close> of the literal
  runs. \<open>str.format\<close> with keyword arguments works from left to right and raises
  \<open>KeyError\<close> at the first field whose name is not a keyword; keywords that no field
  names are ignored.
\<close>

datatype piece = Lit string | Field string

fun str_format :: "piece list \<Rightarrow> (string, string) dict \<Rightarrow> error + string" where
  "str_format [] kwargs = Inr []"
| "str_format (Lit s # ps) kwargs =
     (case str_format ps kwargs of Inl e \<Rightarrow> Inl e | Inr out \<Rightarrow> Inr (s @ out))"
| "str_format (Field k # ps) kwargs =
     (case map_of kwargs k of
        None \<Rightarrow> Inl (KeyError k)
      | Some v \<Rightarrow>
          (case str_format ps kwargs of Inl e \<Rightarrow> Inl e | Inr out \<Rightarrow> Inr (v @ out)))"

fun field_names :: "piece list \<Rightarrow> string list" where
  "field_names [] = []"
| "field_names (Lit s # ps) = field_names ps"
| "field_names (Field k # ps) = k # field_names ps"

definition HTML_TEMPLATE :: "piece list" where
  \<open>HTML_TEMPLATE = [
     Lit ''<!DOCTYPE html>\<newline>'',
     Lit ''<html lang="en">\<newline>'',
     Lit ''<head>\<newline>'',
     Lit ''    <meta charset="UTF-8">\<newline>'',
     Lit ''    <meta name="viewport" content="width=device-width, initial-scale=1.0">\<newline>'',
     Lit ''    <meta name="author" content="'', Field ''author'', Lit ''">\<newline>'',
     Lit ''    <meta name="description" content="'', Field ''description'', Lit ''">\<newline>'',
     Lit ''    <title>'', Field ''title'', Lit ''</title>\<newline>'',
     Lit ''    <style>\<newline>'',
     Lit ''        '', Field ''css_content'', Lit ''\<newline>'',
     Lit ''    </style>\<newline>'',
     Lit ''</head>\<newline>'',
     Lit ''<body>\<newline>'',
     Lit ''    <div class="report-container">\<newline>'',
     Lit ''        '', Field ''header_html'', Lit ''\<newline>'',
     Lit ''        '', Field ''navigation_html'', Lit ''\<newline>'',
     Lit ''        '', Field ''main_content_html'', Lit ''\<newline>'',
     Lit ''        '', Field ''footer_html'', Lit ''\<newline>'',
     Lit ''    </div>\<newline>'',
     Lit ''    <script>\<newline>'',
     Lit ''        '', Field ''javascript_content'', Lit ''\<newline>'',
     Lit ''    </script>\<newline>'',
     Lit ''</body>\<newline>'',
     Lit ''</html>\<newline>'']\<close>

definition DEFAULT_CSS :: "piece list" where
  \<open>DEFAULT_CSS = [
     Lit ''\<newline>'',
     Lit ''    * {\<newline>'',
     Lit ''        margin: 0;\<newline>'',
     Lit ''        padding: 0;\<newline>'',
     Lit ''        box-sizing: border-box;\<newline>'',
     Lit ''    }\<newline>'',
     Lit ''\<newline>'',
     Lit ''    body {\<newline>'',
     Lit ''        font-family: '', Field ''font_family'', Lit '';\<newline>'',
     Lit ''        line-height: 1.6;\<newline>'',
     Lit ''        color: '', Field ''text_color'', Lit '';\<newline>'',
     Lit ''        background-color: '', Field ''bg_color'', Lit '';\<newline>'',
     Lit ''    }\<newline>'',
     Lit ''\<newline>'',
     Lit ''    .report-container {\<newline>'',
     Lit ''        max-width: 1200px;\<newline>'',
     Lit ''        margin: 0 auto;\<newline>'',
     Lit ''        padding: 20px;\<newline>'',
     Lit ''    }\<newline>'',
     Lit ''\<newline>'',
     Lit ''    header {\<newline>'',
     Lit ''        background: linear-gradient(135deg, '', Field ''header_bg_start'', Lit '', '', Field ''header_bg_end'', Lit '');\<newline>'',
     Lit ''        color: white;\<newline>'',
     Lit ''        padding: 40px 20px;\<newline>'',
     Lit ''        border-radius: 8px;\<newline>'',
     Lit ''        margin-bottom: 30px;\<newline>'',
     Lit ''        box-shadow: 0 2px 10px rgba(0, 0, 0, 0.1);\<newline>'',
     Lit ''    }\<newline>'',
     Lit ''\<newline>'',
     Lit ''    header h1 {\<newline>'',
     Lit ''        font-size: 2.5em;\<newline>'',
     Lit ''        margin-bottom: 10px;\<newline>'',
     Lit ''    }\<newline>'',
     Lit ''\<newline>'',
     Lit ''    header .subtitle {\<newline>'',
     Lit ''        font-size: 1.1em;\<newline>'',
     Lit ''        opacity: 0.95;\<newline>'',
     Lit ''    }\<newline>'',
     Lit ''\<newline>'',
     Lit ''    .metadata {\<newline>'',
     Lit ''        display: grid;\<newline>'',
     Lit ''        grid-template-columns: repeat(auto-fit, minmax(200px, 1fr));\<newline>'',
     Lit ''        gap: 15px;\<newline>'',
     Lit ''        margin-top: 20px;\<newline>'',
     Lit ''        font-size: 0.9em;\<newline>'',
     Lit ''    }\<newline>'',
     Lit ''\<newline>'',
     Lit ''    .metadata-item {\<newline>'',
     Lit ''        background: rgba(0, 0, 0, 0.1);\<newline>'',
     Lit ''        padding: 10px;\<newline>'',
     Lit ''        border-radius: 4px;\<newline>'',
     Lit ''    }\<newline>'',
     Lit ''\<newline>'',
     Lit ''    .metadata-label {\<newline>'',
     Lit ''        font-weight: bold;\<newline>'',
     Lit ''        opacity: 0.9;\<newline>'',
     Lit ''    }\<newline>'',
     Lit ''\<newline>'',
     Lit ''    nav {\<newline>'',
     Lit ''        background: '', Field ''nav_bg'', Lit '';\<newline>'',
     Lit ''        padding: 0;\<newline>'',
     Lit ''        margin-bottom: 30px;\<newline>'',
     Lit ''        border-radius: 4px;\<newline>'',
     Lit ''        box-shadow: 0 1px 3px rgba(0, 0, 0, 0.1);\<newline>'',
     Lit ''        position: sticky;\<newline>'',
     Lit ''        top: 0;\<newline>'',
     Lit ''        z-index: 100;\<newline>'',
     Lit ''    }\<newline>'',
     Lit ''\<newline>'',
     Lit ''    nav ul {\<newline>'',
     Lit ''        list-style: none;\<newline>'',
     Lit ''        display: flex;\<newline>'',
     Lit ''        flex-wrap: wrap;\<newline>'',
     Lit ''    }\<newline>'',
     Lit ''\<newline>'',
     Lit ''    nav li {\<newline>'',
     Lit ''        flex: 1;\<newline>'',
     Lit ''        min-width: 120px;\<newline>'',
     Lit ''    }\<newline>'',
     Lit ''\<newline>'',
     Lit ''    nav a {\<newline>'',
     Lit ''        display: block;\<newline>'',
     Lit ''        padding: 15px 20px;\<newline>'',
     Lit ''        color: '', Field ''nav_link_color'', Lit '';\<newline>'',
     Lit ''        text-decoration: none;\<newline>'',
     Lit ''        border-bottom: 3px solid transparent;\<newline>'',
     Lit ''        transition: all 0.3s ease;\<newline>'',
     Lit ''    }\<newline>'',
     Lit ''\<newline>'',
     Lit ''    nav a:hover {\<newline>'',
     Lit ''        border-bottom-color: '', Field ''accent_color'', Lit '';\<newline>'',
     Lit ''        background: rgba(0, 0, 0, 0.05);\<newline>'',
     Lit ''    }\<newline>'',
     Lit ''\<newline>'',
     Lit ''    .section {\<newline>'',
     Lit ''        margin-bottom: 40px;\<newline>'',
     Lit ''        padding: 20px;\<newline>'',
     Lit ''        background: '', Field ''section_bg'', Lit '';\<newline>'',
     Lit ''        border-radius: 8px;\<newline>'',
     Lit ''        box-shadow: 0 1px 3px rgba(0, 0, 0, 0.1);\<newline>'',
     Lit ''    }\<newline>'',
     Lit ''\<newline>'',
     Lit ''    .section h2 {\<newline>'',
     Lit ''        color: '', Field ''heading_color'', Lit '';\<newline>'',
     Lit ''        font-size: 1.8em;\<newline>'',
     Lit ''        margin-bottom: 20px;\<newline>'',
     Lit ''        border-bottom: 2px solid '', Field ''accent_color'', Lit '';\<newline>'',
     Lit ''        padding-bottom: 10px;\<newline>'',
     Lit ''    }\<newline>'',
     Lit ''\<newline>'',
     Lit ''    .section h3 {\<newline>'',
     Lit ''        color: '', Field ''heading_color'', Lit '';\<newline>'',
     Lit ''        font-size: 1.3em;\<newline>'',
     Lit ''        margin-top: 20px;\<newline>'',
     Lit ''        margin-bottom: 10px;\<newline>'',
     Lit ''    }\<newline>'',
     Lit ''\<newline>'',
     Lit ''    .metrics-grid {\<newline>'',
     Lit ''        display: grid;\<newline>'',
     Lit ''        grid-template-columns: repeat(auto-fit, minmax(250px, 1fr));\<newline>'',
     Lit ''        gap: 20px;\<newline>'',
     Lit ''        margin: 20px 0;\<newline>'',
     Lit ''    }\<newline>'',
     Lit ''\<newline>'',
     Lit ''    .metric-card {\<newline>'',
     Lit ''        background: '', Field ''card_bg'', Lit '';\<newline>'',
     Lit ''        border: 1px solid '', Field ''border_color'', Lit '';\<newline>'',
     Lit ''        border-radius: 8px;\<newline>'',
     Lit ''        padding: 20px;\<newline>'',
     Lit ''        text-align: center;\<newline>'',
     Lit ''        transition: transform 0.2s ease;\<newline>'',
     Lit ''    }\<newline>'',
     Lit ''\<newline>'',
     Lit ''    .metric-card:hover {\<newline>'',
     Lit ''        transform: translateY(-5px);\<newline>'',
     Lit ''        box-shadow: 0 5px 15px rgba(0, 0, 0, 0.15);\<newline>'',
     Lit ''    }\<newline>'',
     Lit ''\<newline>'',
     Lit ''    .metric-value {\<newline>'',
     Lit ''        font-size: 2.2em;\<newline>'',
     Lit ''        font-weight: bold;\<newline>'',
     Lit ''        color: '', Field ''accent_color'', Lit '';\<newline>'',
     Lit ''        margin: 10px 0;\<newline>'',
     Lit ''    }\<newline>'',
     Lit ''\<newline>'',
     Lit ''    .metric-label {\<newline>'',
     Lit ''        font-size: 0.95em;\<newline>'',
     Lit ''        color: '', Field ''muted_color'', Lit '';\<newline>'',
     Lit ''        text-transform: uppercase;\<newline>'',
     Lit ''        letter-spacing: 1px;\<newline>'',
     Lit ''    }\<newline>'',
     Lit ''\<newline>'',
     Lit ''    .metric-unit {\<newline>'',
     Lit ''        font-size: 0.8em;\<newline>'',
     Lit ''        color: '', Field ''muted_color'', Lit '';\<newline>'',
     Lit ''    }\<newline>'',
     Lit ''\<newline>'',
     Lit ''    .visualization {\<newline>'',
     Lit ''        background: '', Field ''chart_bg'', Lit '';\<newline>'',
     Lit ''        border: 1px solid '', Field ''border_color'', Lit '';\<newline>'',
     Lit ''        border-radius: 6px;\<newline>'',
     Lit ''        padding: 20px;\<newline>'',
     Lit ''        margin: 20px 0;\<newline>'',
     Lit ''        text-align: center;\<newline>'',
     Lit ''    }\<newline>'',
     Lit ''\<newline>'',
     Lit ''    .visualization img {\<newline>'',
     Lit ''        max-width: 100%;\<newline>'',
     Lit ''        height: auto;\<newline>'',
     Lit ''        border-radius: 4px;\<newline>'',
     Lit ''    }\<newline>'',
     Lit ''\<newline>'',
     Lit ''    table {\<newline>'',
     Lit ''        width: 100%;\<newline>'',
     Lit ''        border-collapse: collapse;\<newline>'',
     Lit ''        margin: 20px 0;\<newline>'',
     Lit ''    }\<newline>'',
     Lit ''\<newline>'',
     Lit ''    thead {\<newline>'',
     Lit ''        background: '', Field ''table_header_bg'', Lit '';\<newline>'',
     Lit ''        color: white;\<newline>'',
     Lit ''    }\<newline>'',
     Lit ''\<newline>'',
     Lit ''    th {\<newline>'',
     Lit ''        padding: 12px;\<newline>'',
     Lit ''        text-align: left;\<newline>'',
     Lit ''        font-weight: 600;\<newline>'',
     Lit ''    }\<newline>'',
     Lit ''\<newline>'',
     Lit ''    td {\<newline>'',
     Lit ''        padding: 12px;\<newline>'',
     Lit ''        border-bottom: 1px solid '', Field ''border_color'', Lit '';\<newline>'',
     Lit ''    }\<newline>'',
     Lit ''\<newline>'',
     Lit ''    tbody tr:hover {\<newline>'',
     Lit ''        background: '', Field ''table_hover_bg'', Lit '';\<newline>'',
     Lit ''    }\<newline>'',
     Lit ''\<newline>'',
     Lit ''    .status-badge {\<newline>'',
     Lit ''        display: inline-block;\<newline>'',
     Lit ''        padding: 5px 12px;\<newline>'',
     Lit ''        border-radius: 20px;\<newline>'',
     Lit ''        font-size: 0.85em;\<newline>'',
     Lit ''        font-weight: bold;\<newline>'',
     Lit ''    }\<newline>'',
     Lit ''\<newline>'',
     Lit ''    .status-success {\<newline>'',
     Lit ''        background: #d4edda;\<newline>'',
     Lit ''        color: #155724;\<newline>'',
     Lit ''    }\<newline>'',
     Lit ''\<newline>'',
     Lit ''    .status-warning {\<newline>'',
     Lit ''        background: #fff3cd;\<newline>'',
     Lit ''        color: #856404;\<newline>'',
     Lit ''    }\<newline>'',
     Lit ''\<newline>'',
     Lit ''    .status-error {\<newline>'',
     Lit ''        background: #f8d7da;\<newline>'',
     Lit ''        color: #721c24;\<newline>'',
     Lit ''    }\<newline>'',
     Lit ''\<newline>'',
     Lit ''    .status-info {\<newline>'',
     Lit ''        background: #d1ecf1;\<newline>'',
     Lit ''        color: #0c5460;\<newline>'',
     Lit ''    }\<newline>'',
     Lit ''\<newline>'',
     Lit ''    .tag {\<newline>'',
     Lit ''        display: inline-block;\<newline>'',
     Lit ''        background: '', Field ''tag_bg'', Lit '';\<newline>'',
     Lit ''        color: '', Field ''tag_color'', Lit '';\<newline>'',
     Lit ''        padding: 5px 10px;\<newline>'',
     Lit ''        border-radius: 4px;\<newline>'',
     Lit ''        margin: 5px 5px 5px 0;\<newline>'',
     Lit ''        font-size: 0.85em;\<newline>'',
     Lit ''    }\<newline>'',
     Lit ''\<newline>'',
     Lit ''    footer {\<newline>'',
     Lit ''        background: '', Field ''footer_bg'', Lit '';\<newline>'',
     Lit ''        color: '', Field ''footer_text'', Lit '';\<newline>'',
     Lit ''        padding: 30px 20px;\<newline>'',
     Lit ''        text-align: center;\<newline>'',
     Lit ''        border-top: 1px solid '', Field ''border_color'', Lit '';\<newline>'',
     Lit ''        margin-top: 40px;\<newline>'',
     Lit ''        border-radius: 0 0 8px 8px;\<newline>'',
     Lit ''    }\<newline>'',
     Lit ''\<newline>'',
     Lit ''    footer p {\<newline>'',
     Lit ''        margin: 5px 0;\<newline>'',
     Lit ''        font-size: 0.9em;\<newline>'',
     Lit ''    }\<newline>'',
     Lit ''\<newline>'',
     Lit ''    .footer-links {\<newline>'',
     Lit ''        margin-top: 15px;\<newline>'',
     Lit ''    }\<newline>'',
     Lit ''\<newline>'',
     Lit ''    .footer-links a {\<newline>'',
     Lit ''        color: '', Field ''accent_color'', Lit '';\<newline>'',
     Lit ''        text-decoration: none;\<newline>'',
     Lit ''        margin: 0 10px;\<newline>'',
     Lit ''    }\<newline>'',
     Lit ''\<newline>'',
     Lit ''    .footer-links a:hover {\<newline>'',
     Lit ''        text-decoration: underline;\<newline>'',
     Lit ''    }\<newline>'',
     Lit ''\<newline>'',
     Lit ''    @media (max-width: 768px) {\<newline>'',
     Lit ''        header h1 {\<newline>'',
     Lit ''            font-size: 1.8em;\<newline>'',
     Lit ''        }\<newline>'',
     Lit ''\<newline>'',
     Lit ''        .metrics-grid {\<newline>'',
     Lit ''            grid-template-columns: 1fr;\<newline>'',
     Lit ''        }\<newline>'',
     Lit ''\<newline>'',
     Lit ''        nav ul {\<newline>'',
     Lit ''            flex-direction: column;\<newline>'',
     Lit ''        }\<newline>'',
     Lit ''\<newline>'',
     Lit ''        nav li {\<newline>'',
     Lit ''            min-width: 100%;\<newline>'',
     Lit ''        }\<newline>'',
     Lit ''\<newline>'',
     Lit ''        .metadata {\<newline>'',
     Lit ''            grid-template-columns: 1fr;\<newline>'',
     Lit ''        }\<newline>'',
     Lit ''    }\<newline>'']\<close>

section \<open>html_report_template.py: the report generator\<close>

definition light_scheme :: "(string, string) dict" where
  \<open>light_scheme = [
     (''bg_color'', ''#ffffff''),
     (''text_color'', ''#333333''),
     (''header_bg_start'', ''#667eea''),
     (''header_bg_end'', ''#764ba2''),
     (''nav_bg'', ''#f8f9fa''),
     (''nav_link_color'', ''#333333''),
     (''accent_color'', ''#667eea''),
     (''section_bg'', ''#f9f9f9''),
     (''card_bg'', ''#ffffff''),
     (''heading_color'', ''#2d3748''),
     (''muted_color'', ''#718096''),
     (''border_color'', ''#e2e8f0''),
     (''chart_bg'', ''#ffffff''),
     (''table_header_bg'', ''#667eea''),
     (''table_hover_bg'', ''#f7fafc''),
     (''tag_bg'', ''#edf2f7''),
     (''tag_color'', ''#2d3748''),
     (''footer_bg'', ''#2d3748''),
     (''footer_text'', ''#ffffff''),
     (''font_family'', CHR 0x27 # ''Segoe UI', Tahoma, Geneva, Verdana, sans-serif'')]\<close>

definition dark_scheme :: "(string, string) dict" where
  \<open>dark_scheme = [
     (''bg_color'', ''#1a202c''),
     (''text_color'', ''#e2e8f0''),
     (''header_bg_start'', ''#5a67d8''),
     (''header_bg_end'', ''#6b46c1''),
     (''nav_bg'', ''#2d3748''),
     (''nav_link_color'', ''#e2e8f0''),
     (''accent_color'', ''#63b3ed''),
     (''section_bg'', ''#2d3748''),
     (''card_bg'', ''#374151''),
     (''heading_color'', ''#e2e8f0''),
     (''muted_color'', ''#a0aec0''),
     (''border_color'', ''#4a5568''),
     (''chart_bg'', ''#2d3748''),
     (''table_header_bg'', ''#5a67d8''),
     (''table_hover_bg'', ''#374151''),
     (''tag_bg'', ''#4a5568''),
     (''tag_color'', ''#e2e8f0''),
     (''footer_bg'', ''#1a202c''),
     (''footer_text'', ''#a0aec0''),
     (''font_family'', CHR 0x27 # ''Segoe UI', Tahoma, Geneva, Verdana, sans-serif'')]\<close>

definition minimal_scheme :: "(string, string) dict" where
  \<open>minimal_scheme = [
     (''bg_color'', ''#fafafa''),
     (''text_color'', ''#444444''),
     (''header_bg_start'', ''#000000''),
     (''header_bg_end'', ''#333333''),
     (''nav_bg'', ''#ffffff''),
     (''nav_link_color'', ''#444444''),
     (''accent_color'', ''#000000''),
     (''section_bg'', ''#ffffff''),
     (''card_bg'', ''#ffffff''),
     (''heading_color'', ''#000000''),
     (''muted_color'', ''#999999''),
     (''border_color'', ''#dddddd''),
     (''chart_bg'', ''#ffffff''),
     (''table_header_bg'', ''#333333''),
     (''table_hover_bg'', ''#f5f5f5''),
     (''tag_bg'', ''#f0f0f0''),
     (''tag_color'', ''#333333''),
     (''footer_bg'', ''#333333''),
     (''footer_text'', ''#ffffff''),
     (''font_family'', CHR 0x27 # ''Georgia', serif'')]\<close>

text \<open>
  \<open>schemes.get(theme, schemes["light"])\<close>: the dictionary literal is built anew by
  every call, so the palette returned is a fresh object that the caller may update.
\<close>

definition schemes :: "(string, (string, string) dict) dict" where
  "schemes = [(''light'', light_scheme), (''dark'', dark_scheme), (''minimal'', minimal_scheme)]"

definition build_color_scheme :: "string \<Rightarrow> (string, string) dict" where
  "build_color_scheme theme =
     (case map_of schemes theme of Some scheme \<Rightarrow> scheme | None \<Rightarrow> light_scheme)"

definition generate_header ::
  "string \<Rightarrow> string option \<Rightarrow> (string, pyval) dict \<Rightarrow> string" where
  \<open>generate_header title description metadata =
     (let items =
            map (\<lambda>(key, value).
                   ''<div class="metadata-item"><span class="metadata-label">'' @ key @ '':</span> '' @ py_str value @ ''</div>'')
              (filter (\<lambda>(key, value). truthy value) metadata);
          metadata_html =
            (if metadata \<noteq> [] \<and> items \<noteq> []
             then ''<div class="metadata">'' @ concat items @ ''</div>'' else '''');
          desc_html =
            (case description of
               None \<Rightarrow> ''''
             | Some description \<Rightarrow>
                 if description \<noteq> []
                 then ''<p class="subtitle">'' @ description @ ''</p>''
                 else '''')
      in
     ''\<newline>'' @
     ''    <header>\<newline>'' @
     ''        <h1>'' @ title @ ''</h1>\<newline>'' @
     ''        '' @ desc_html @ ''\<newline>'' @
     ''        '' @ metadata_html @ ''\<newline>'' @
     ''    </header>\<newline>'' @
     ''    '')\<close>

definition generate_navigation :: "string list \<Rightarrow> string" where
  \<open>generate_navigation sections =
     (let nav_items =
            concat (map (\<lambda>section.
                      ''<li><a href="#'' @ section @ ''">'' @ str_title section @ ''</a></li>'')
                    sections)
      in
     ''\<newline>'' @
     ''    <nav>\<newline>'' @
     ''        <ul>\<newline>'' @
     ''            '' @ nav_items @ ''\<newline>'' @
     ''        </ul>\<newline>'' @
     ''    </nav>\<newline>'' @
     ''    '')\<close>

text \<open>The five placeholder bodies of \<open>generate_section_placeholder\<close>.\<close>

definition summary_section :: "string \<Rightarrow> string" where
  \<open>summary_section section_id =
     ''\<newline>'' @
     ''    <section id="'' @ section_id @ ''" class="section">\<newline>'' @
     ''        <h2>Summary</h2>\<newline>'' @
     ''        <p>This section provides an overview of the analysis results and key findings.</p>\<newline>'' @
     ''        <div class="metrics-grid">\<newline>'' @
     ''            <div class="metric-card">\<newline>'' @
     ''                <div class="metric-label">Status</div>\<newline>'' @
     ''                <div class="metric-value"><span class="status-badge status-success">Complete</span></div>\<newline>'' @
     ''            </div>\<newline>'' @
     ''            <div class="metric-card">\<newline>'' @
     ''                <div class="metric-label">Processing Time</div>\<newline>'' @
     ''                <div class="metric-value">2<span class="metric-unit">h 15m</span></div>\<newline>'' @
     ''            </div>\<newline>'' @
     ''            <div class="metric-card">\<newline>'' @
     ''                <div class="metric-label">Data Points</div>\<newline>'' @
     ''                <div class="metric-value">10,240</div>\<newline>'' @
     ''            </div>\<newline>'' @
     ''        </div>\<newline>'' @
     ''    </section>\<newline>'' @
     ''    ''\<close>

definition metrics_section :: "string \<Rightarrow> string" where
  \<open>metrics_section section_id =
     ''\<newline>'' @
     ''    <section id="'' @ section_id @ ''" class="section">\<newline>'' @
     ''        <h2>Analysis Metrics</h2>\<newline>'' @
     ''        <p>Quantitative measurements and key performance indicators.</p>\<newline>'' @
     ''        <div class="metrics-grid">\<newline>'' @
     ''            <div class="metric-card">\<newline>'' @
     ''                <div class="metric-label">Metric One</div>\<newline>'' @
     ''                <div class="metric-value">0.92</div>\<newline>'' @
     ''            </div>\<newline>'' @
     ''            <div class="metric-card">\<newline>'' @
     ''                <div class="metric-label">Metric Two</div>\<newline>'' @
     ''                <div class="metric-value">87.5<span class="metric-unit">%</span></div>\<newline>'' @
     ''            </div>\<newline>'' @
     ''            <div class="metric-card">\<newline>'' @
     ''                <div class="metric-label">Metric Three</div>\<newline>'' @
     ''                <div class="metric-value">156<span class="metric-unit">ms</span></div>\<newline>'' @
     ''            </div>\<newline>'' @
     ''            <div class="metric-card">\<newline>'' @
     ''                <div class="metric-label">Metric Four</div>\<newline>'' @
     ''                <div class="metric-value">p &lt; 0.001</div>\<newline>'' @
     ''            </div>\<newline>'' @
     ''        </div>\<newline>'' @
     ''    </section>\<newline>'' @
     ''    ''\<close>

definition visualizations_section :: "string \<Rightarrow> string" where
  \<open>visualizations_section section_id =
     ''\<newline>'' @
     ''    <section id="'' @ section_id @ ''" class="section">\<newline>'' @
     ''        <h2>Visualizations</h2>\<newline>'' @
     ''        <p>Graphical representations of analysis results and trends.</p>\<newline>'' @
     ''        <div class="visualization">\<newline>'' @
     ''            <p style="color: #999; font-size: 1.2em; padding: 40px;">\<newline>'' @
     ''                [Chart/Graph/Plot Placeholder]\<newline>'' @
     ''            </p>\<newline>'' @
     ''        </div>\<newline>'' @
     ''        <div class="visualization">\<newline>'' @
     ''            <p style="color: #999; font-size: 1.2em; padding: 40px;">\<newline>'' @
     ''                [Visualization Placeholder]\<newline>'' @
     ''            </p>\<newline>'' @
     ''        </div>\<newline>'' @
     ''    </section>\<newline>'' @
     ''    ''\<close>

definition quality_section :: "string \<Rightarrow> string" where
  \<open>quality_section section_id =
     ''\<newline>'' @
     ''    <section id="'' @ section_id @ ''" class="section">\<newline>'' @
     ''        <h2>Quality Assessment</h2>\<newline>'' @
     ''        <p>Data quality evaluation and validation results.</p>\<newline>'' @
     ''        <table>\<newline>'' @
     ''            <thead>\<newline>'' @
     ''                <tr>\<newline>'' @
     ''                    <th>Check</th>\<newline>'' @
     ''                    <th>Result</th>\<newline>'' @
     ''                    <th>Details</th>\<newline>'' @
     ''                </tr>\<newline>'' @
     ''            </thead>\<newline>'' @
     ''            <tbody>\<newline>'' @
     ''                <tr>\<newline>'' @
     ''                    <td>Data Completeness</td>\<newline>'' @
     ''                    <td><span class="status-badge status-success">Pass</span></td>\<newline>'' @
     ''                    <td>100% of expected data present</td>\<newline>'' @
     ''                </tr>\<newline>'' @
     ''                <tr>\<newline>'' @
     ''                    <td>Value Range Validation</td>\<newline>'' @
     ''                    <td><span class="status-badge status-success">Pass</span></td>\<newline>'' @
     ''                    <td>All values within expected ranges</td>\<newline>'' @
     ''                </tr>\<newline>'' @
     ''                <tr>\<newline>'' @
     ''                    <td>Format Compliance</td>\<newline>'' @
     ''                    <td><span class="status-badge status-warning">Warning</span></td>\<newline>'' @
     ''                    <td>Minor formatting inconsistencies detected</td>\<newline>'' @
     ''                </tr>\<newline>'' @
     ''            </tbody>\<newline>'' @
     ''        </table>\<newline>'' @
     ''    </section>\<newline>'' @
     ''    ''\<close>

definition metadata_section :: "string \<Rightarrow> string \<Rightarrow> string" where
  \<open>metadata_section section_id generated_date =
     ''\<newline>'' @
     ''    <section id="'' @ section_id @ ''" class="section">\<newline>'' @
     ''        <h2>Metadata</h2>\<newline>'' @
     ''        <p>Information about the analysis execution and configuration.</p>\<newline>'' @
     ''        <table>\<newline>'' @
     ''            <thead>\<newline>'' @
     ''                <tr>\<newline>'' @
     ''                    <th>Parameter</th>\<newline>'' @
     ''                    <th>Value</th>\<newline>'' @
     ''                </tr>\<newline>'' @
     ''            </thead>\<newline>'' @
     ''            <tbody>\<newline>'' @
     ''                <tr>\<newline>'' @
     ''                    <td>Generated Date</td>\<newline>'' @
     ''                    <td>'' @ generated_date @ ''</td>\<newline>'' @
     ''                </tr>\<newline>'' @
     ''                <tr>\<newline>'' @
     ''                    <td>Generator Version</td>\<newline>'' @
     ''                    <td>1.0.0</td>\<newline>'' @
     ''                </tr>\<newline>'' @
     ''                <tr>\<newline>'' @
     ''                    <td>Input Source</td>\<newline>'' @
     ''                    <td>Analysis output directory</td>\<newline>'' @
     ''                </tr>\<newline>'' @
     ''                <tr>\<newline>'' @
     ''                    <td>Configuration</td>\<newline>'' @
     ''                    <td>Default template</td>\<newline>'' @
     ''                </tr>\<newline>'' @
     ''            </tbody>\<newline>'' @
     ''        </table>\<newline>'' @
     ''    </section>\<newline>'' @
     ''    ''\<close>

text \<open>Only the metadata placeholder reads the clock.\<close>

definition generate_section_placeholder :: "clock \<Rightarrow> nat \<Rightarrow> string \<Rightarrow> string \<times> nat" where
  "generate_section_placeholder clk n section_name =
     (let section_id = str_lower section_name in
      if section_id = ''summary'' then (summary_section section_id, n)
      else if section_id = ''metrics'' then (metrics_section section_id, n)
      else if section_id = ''visualizations'' then (visualizations_section section_id, n)
      else if section_id = ''quality'' then (quality_section section_id, n)
      else if section_id = ''metadata'' then
        (let (now, n') = datetime_now clk n
         in (metadata_section section_id (strftime now), n'))
      else ('''', n))"

definition generate_footer :: "clock \<Rightarrow> nat \<Rightarrow> string list option \<Rightarrow> string \<times> nat" where
  \<open>generate_footer clk n tags =
     (let tags_html =
            (case tags of
               None \<Rightarrow> ''''
             | Some tags \<Rightarrow>
                 if tags \<noteq> []
                 then (let tag_elements =
                             concat (map (\<lambda>tag. ''<span class="tag">'' @ tag @ ''</span>'') tags)
                       in
                       ''\<newline>'' @
     ''        <p>\<newline>'' @
     ''            <strong>Tags:</strong><br>\<newline>'' @
     ''            '' @ tag_elements @ ''\<newline>'' @
     ''        </p>\<newline>'' @
     ''        '')
                 else '''');
          (now, n') = datetime_now clk n
      in
     (''\<newline>'' @
     ''    <footer>\<newline>'' @
     ''        '' @ tags_html @ ''\<newline>'' @
     ''        <p>&copy; '' @ str_nat (year now) @ '' Analysis Report. All rights reserved.</p>\<newline>'' @
     ''        <div class="footer-links">\<newline>'' @
     ''            <a href="#">Documentation</a>\<newline>'' @
     ''            <a href="#">Report Issue</a>\<newline>'' @
     ''            <a href="#">Contact Support</a>\<newline>'' @
     ''        </div>\<newline>'' @
     ''    </footer>\<newline>'' @
     ''    '', n'))\<close>

text \<open>
  The list comprehension \<open>[generate_section_placeholder(section) for section in sections]\<close>,
  with the clock readings passed from one call to the next.
\<close>

fun section_placeholders :: "clock \<Rightarrow> nat \<Rightarrow> string list \<Rightarrow> string list \<times> nat" where
  "section_placeholders clk n [] = ([], n)"
| "section_placeholders clk n (section # sections) =
     (let (fragment, n') = generate_section_placeholder clk n section;
          (fragments, n'') = section_placeholders clk n' sections
      in (fragment # fragments, n''))"

text \<open>
  The first statements of \<open>generate_html_report\<close>. The parameter \<open>metadata\<close> is the
  caller's dictionary object when one was passed, and a new empty dictionary
  otherwise; \<open>metadata["Author"] = author\<close> writes into that object.
\<close>

definition sections_or_default :: "string list option \<Rightarrow> string list" where
  "sections_or_default sections =
     (case sections of None \<Rightarrow> [''summary'', ''metrics'', ''visualizations''] | Some sections \<Rightarrow> sections)"

definition metadata_with_author ::
  "string option \<Rightarrow> (string, pyval) dict option \<Rightarrow> (string, pyval) dict" where
  "metadata_with_author author metadata =
     (let metadata = (case metadata of None \<Rightarrow> [] | Some metadata \<Rightarrow> metadata) in
      case author of
        None \<Rightarrow> metadata
      | Some author \<Rightarrow>
          if author \<noteq> [] then AList.update ''Author'' (PStr author) metadata else metadata)"

text \<open>
  \<open>colors = build_color_scheme(theme)\<close> and \<open>colors.update(custom_colors)\<close>, which
  assigns the entries of \<open>custom_colors\<close> one after the other.
\<close>

definition dict_update :: "('k, 'v) dict \<Rightarrow> ('k, 'v) dict \<Rightarrow> ('k, 'v) dict" where
  "dict_update d other = fold (\<lambda>(k, v). AList.update k v) other d"

definition merged_colors ::
  "string \<Rightarrow> (string, string) dict option \<Rightarrow> (string, string) dict" where
  "merged_colors theme custom_colors =
     (let colors = build_color_scheme theme in
      case custom_colors of
        None \<Rightarrow> colors
      | Some custom_colors \<Rightarrow>
          if custom_colors \<noteq> [] then dict_update colors custom_colors else colors)"

definition javascript_content :: string where
  \<open>javascript_content =
     ''\<newline>'' @
     ''    document.addEventListener('DOMContentLoaded', function() {\<newline>'' @
     ''        console.log('Report loaded successfully');\<newline>'' @
     ''        // Add interactive features here\<newline>'' @
     ''    });\<newline>'' @
     ''    ''\<close>

definition str_or :: "string option \<Rightarrow> string \<Rightarrow> string" where
  "str_or s fallback =
     (case s of None \<Rightarrow> fallback | Some s \<Rightarrow> if s \<noteq> [] then s else fallback)"

text \<open>
  The keyword arguments of \<open>HTML_TEMPLATE.format(title=title, author=..., ...)\<close>.
\<close>

definition html_arguments ::
  "string \<Rightarrow> string option \<Rightarrow> string option \<Rightarrow> string \<Rightarrow> string \<Rightarrow> string \<Rightarrow> string \<Rightarrow>
   string \<Rightarrow> (string, string) dict" where
  "html_arguments title author description css_content header_html navigation_html
       main_content_html footer_html =
     [(''title'', title),
      (''author'', str_or author ''Analysis Pipeline''),
      (''description'', str_or description ''Generated analysis report''),
      (''css_content'', css_content),
      (''header_html'', header_html),
      (''navigation_html'', navigation_html),
      (''main_content_html'', main_content_html),
      (''footer_html'', footer_html),
      (''javascript_content'', javascript_content)]"

text \<open>
  What a call of \<open>generate_html_report\<close> leaves behind: the string it returns, the
  caller's metadata dictionary after the call (\<open>None\<close> when the caller passed none) and
  the number of clock readings.
\<close>

record report_result =
  returned :: string
  metadata_after :: "(string, pyval) dict option"
  clock_after :: nat

definition generate_html_report ::
  "clock \<Rightarrow> nat \<Rightarrow> string \<Rightarrow> string option \<Rightarrow> string list option \<Rightarrow> string \<Rightarrow>
   string option \<Rightarrow> string list option \<Rightarrow> (string, pyval) dict option \<Rightarrow>
   (string, string) dict option \<Rightarrow> error + report_result" where
  "generate_html_report clk n title description sections theme author tags metadata custom_colors =
     (let sections = sections_or_default sections;
          metadata' = metadata_with_author author metadata;
          colors = merged_colors theme custom_colors
      in
      case str_format DEFAULT_CSS colors of
        Inl e \<Rightarrow> Inl e
      | Inr css_content \<Rightarrow>
          (let header_html = generate_header title description metadata';
               navigation_html = generate_navigation sections;
               (fragments, n') = section_placeholders clk n sections;
               main_content_html = concat fragments;
               (footer_html, n'') = generate_footer clk n' tags
           in
           case str_format HTML_TEMPLATE
                  (html_arguments title author description css_content header_html
                     navigation_html main_content_html footer_html) of
             Inl e \<Rightarrow> Inl e
           | Inr html \<Rightarrow>
               Inr \<lparr>returned = html,
                    metadata_after = map_option (\<lambda>_. metadata') metadata,
                    clock_after = n''\<rparr>))"





section \<open>Properties of the derivatives parser\<close>

lemma str_split1_eq:
  "CHR ''='' \<in> set s \<Longrightarrow>
   str_split1 CHR ''='' s =
     [takeWhile (\<lambda>c. c \<noteq> CHR ''='') s, tl (dropWhile (\<lambda>c. c \<noteq> CHR ''='') s)]"
  by (simp add: str_split1_def)

lemma str_split1_append:
  assumes "CHR ''='' \<notin> set name"
  shows "str_split1 CHR ''='' (name @ CHR ''='' # rest) = [name, rest]"
proof -
  have t: "takeWhile (\<lambda>c. c \<noteq> CHR ''='') (name @ CHR ''='' # rest) = name"
    using assms by (induction name) auto
  have d: "dropWhile (\<lambda>c. c \<noteq> CHR ''='') (name @ CHR ''='' # rest) = CHR ''='' # rest"
    using assms by (induction name) auto
  show ?thesis by (simp add: str_split1_def t d)
qed

lemma loop_well_formed:
  "\<forall>t \<in> set ts. CHR ''='' \<in> set t \<Longrightarrow>
   parse_derivatives_loop ts d =
     Inr (fold (\<lambda>t. AList.update (token_name t) (token_path t)) ts d)"
  by (induction ts arbitrary: d) (simp_all add: str_split1_eq token_name_def token_path_def)

lemma loop_first_bad:
  "\<forall>t \<in> set pre. CHR ''='' \<in> set t \<Longrightarrow> CHR ''='' \<notin> set bad \<Longrightarrow>
   parse_derivatives_loop (pre @ bad # post) d =
     Inl (ValueError (''Invalid derivatives argument: '' @ bad @
            ''. Expected format: name=path (e.g., preprocessed=/path/to/data)''))"
  by (induction pre arbitrary: d) (simp_all add: str_split1_eq)

lemma loop_raises_iff:
  "(\<exists>e. parse_derivatives_loop ts d = Inl e) \<longleftrightarrow> (\<exists>t \<in> set ts. CHR ''='' \<notin> set t)"
  by (induction ts arbitrary: d) (simp_all add: str_split1_eq)

lemma arg_raises_iff:
  "(\<exists>e. parse_derivatives_arg ts = Inl e) \<longleftrightarrow> (\<exists>t \<in> set ts. CHR ''='' \<notin> set t)"
  by (cases "ts = []") (simp_all add: parse_derivatives_arg_def loop_raises_iff)

lemma arg_first_bad:
  "\<forall>t \<in> set pre. CHR ''='' \<in> set t \<Longrightarrow> CHR ''='' \<notin> set bad \<Longrightarrow>
   parse_derivatives_arg (pre @ bad # post) =
     Inl (ValueError (''Invalid derivatives argument: '' @ bad @
            ''. Expected format: name=path (e.g., preprocessed=/path/to/data)''))"
  by (simp add: parse_derivatives_arg_def loop_first_bad)

lemma map_of_fold_update_last:
  "\<forall>t \<in> set post. f t \<noteq> k \<Longrightarrow>
   map_of (fold (\<lambda>t. AList.update (f t) (g t)) post d) k = map_of d k"
  by (induction post arbitrary: d) (auto simp: update_conv')

lemma arg_well_formed:
  "\<forall>t \<in> set ts. CHR ''='' \<in> set t \<Longrightarrow>
   parse_derivatives_arg ts =
     Inr (fold (\<lambda>t. AList.update (token_name t) (token_path t)) ts [])"
  by (cases "ts = []") (simp_all add: parse_derivatives_arg_def loop_well_formed)

text \<open>
  Claim C3. \<open>parse_derivatives_arg ["a=/x", "b=/y"]\<close> is the mapping
  \<open>{a: /x, b: /y}\<close>; \<open>parse_derivatives_arg ["bad"]\<close> raises a ValueError whose message
  names the token \<open>bad\<close> and the expected format \<open>name=path\<close>; the function raises
  exactly when some token has no \<open>=\<close>, and the message then names the first such token.
\<close>

theorem parse_derivatives_arg_validation:
  "parse_derivatives_arg [''a=/x'', ''b=/y''] = Inr [(''a'', Path ''/x''), (''b'', Path ''/y'')]
   \<and> parse_derivatives_arg [''bad''] =
       Inl (ValueError (''Invalid derivatives argument: '' @ ''bad'' @
              ''. Expected format: '' @ ''name=path'' @ '' (e.g., preprocessed=/path/to/data)''))
   \<and> ((\<exists>e. parse_derivatives_arg ts = Inl e) \<longleftrightarrow> (\<exists>t \<in> set ts. CHR ''='' \<notin> set t))
   \<and> ((\<forall>t \<in> set pre. CHR ''='' \<in> set t) \<and> CHR ''='' \<notin> set bad \<longrightarrow>
        parse_derivatives_arg (pre @ bad # post) =
          Inl (ValueError (''Invalid derivatives argument: '' @ bad @
                 ''. Expected format: name=path (e.g., preprocessed=/path/to/data)'')))"
proof (intro conjI impI)
  show "parse_derivatives_arg [''a=/x'', ''b=/y''] =
          Inr [(''a'', Path ''/x''), (''b'', Path ''/y'')]"
    by (simp add: parse_derivatives_arg_def str_split1_def)
  show "parse_derivatives_arg [''bad''] =
          Inl (ValueError (''Invalid derivatives argument: '' @ ''bad'' @
                 ''. Expected format: '' @ ''name=path'' @ '' (e.g., preprocessed=/path/to/data)''))"
    by (simp add: parse_derivatives_arg_def)
  show "(\<exists>e. parse_derivatives_arg ts = Inl e) \<longleftrightarrow> (\<exists>t \<in> set ts. CHR ''='' \<notin> set t)"
    by (rule arg_raises_iff)
next
  assume "(\<forall>t \<in> set pre. CHR ''='' \<in> set t) \<and> CHR ''='' \<notin> set bad"
  then show "parse_derivatives_arg (pre @ bad # post) =
          Inl (ValueError (''Invalid derivatives argument: '' @ bad @
                 ''. Expected format: name=path (e.g., preprocessed=/path/to/data)''))"
    by (simp add: arg_first_bad)
qed

theorem parse_derivatives_arg_validation_witness:
  "(\<exists>e. parse_derivatives_arg [''a=/x'', ''bad'', ''c=/z''] = Inl e)
   \<and> parse_derivatives_arg ([''a=/x''] @ ''bad'' # [''c=/z'']) =
       Inl (ValueError ''Invalid derivatives argument: bad. Expected format: name=path (e.g., preprocessed=/path/to/data)'')"
  using parse_derivatives_arg_validation [of "[''a=/x'', ''bad'', ''c=/z'']" "[''a=/x'']" "''bad''" "[''c=/z'']"]
  by simp

text \<open>
  Claim C10. A token is split at its first \<open>=\<close> only: for a name without \<open>=\<close>, the
  token \<open>name=rest\<close> is accepted with key \<open>name\<close> and path \<open>rest\<close>, whatever \<open>rest\<close>
  contains (so \<open>a=b=c\<close> gives key \<open>a\<close> and path \<open>b=c\<close>); and when several tokens have
  the same name, the mapping holds the path of the last of them.
\<close>

theorem parse_derivatives_arg_first_separator:
  assumes "CHR ''='' \<notin> set name"
      and "\<forall>t \<in> set pre. CHR ''='' \<in> set t"
      and "\<forall>t \<in> set post. CHR ''='' \<in> set t \<and> token_name t \<noteq> name"
  shows "parse_derivatives_arg [name @ ''='' @ rest] = Inr [(name, Path rest)]
       \<and> parse_derivatives_arg [''a=b=c''] = Inr [(''a'', Path ''b=c'')]
       \<and> (\<exists>d. parse_derivatives_arg (pre @ [name @ ''='' @ rest] @ post) = Inr d
              \<and> map_of d name = Some (Path rest))"
proof (intro conjI)
  show "parse_derivatives_arg [name @ ''='' @ rest] = Inr [(name, Path rest)]"
    using assms(1) by (simp add: parse_derivatives_arg_def str_split1_append)
  show "parse_derivatives_arg [''a=b=c''] = Inr [(''a'', Path ''b=c'')]"
    by (simp add: parse_derivatives_arg_def str_split1_def)
  let ?tok = "name @ CHR ''='' # rest"
  let ?upd = "\<lambda>t. AList.update (token_name t) (token_path t)"
  have nm: "token_name ?tok = name"
    using assms(1) unfolding token_name_def by (induction name) auto
  have pt: "token_path ?tok = Path rest"
    using assms(1) unfolding token_path_def by (induction name) auto
  have wf: "\<forall>t \<in> set (pre @ [?tok] @ post). CHR ''='' \<in> set t"
    using assms(2,3) by auto
  have run: "parse_derivatives_arg (pre @ [?tok] @ post) = Inr (fold ?upd (pre @ [?tok] @ post) [])"
    using wf by (rule arg_well_formed)
  have "map_of (fold ?upd (pre @ [?tok] @ post) []) name
          = map_of (AList.update name (Path rest) (fold ?upd pre [])) name"
    using assms(3) by (simp add: map_of_fold_update_last nm pt)
  also have "\<dots> = Some (Path rest)"
    by (simp add: update_conv')
  finally show "\<exists>d. parse_derivatives_arg (pre @ [name @ ''='' @ rest] @ post) = Inr d
                  \<and> map_of d name = Some (Path rest)"
    using run by simp
qed

theorem parse_derivatives_arg_first_separator_witness:
  "parse_derivatives_arg [''fmriprep'' @ ''='' @ ''/data/a=b''] = Inr [(''fmriprep'', Path ''/data/a=b'')]
   \<and> (\<exists>d. parse_derivatives_arg ([''fmriprep=/old''] @ [''fmriprep'' @ ''='' @ ''/data/a=b''] @ [''other=/o''])
              = Inr d
          \<and> map_of d ''fmriprep'' = Some (Path ''/data/a=b''))"
  using parse_derivatives_arg_first_separator
          [of "''fmriprep''" "[''fmriprep=/old'']" "[''other=/o'']" "''/data/a=b''"]
  by (simp add: token_name_def)

section \<open>Properties of format strings and palettes\<close>

lemma str_format_total:
  "set (field_names ps) \<subseteq> fst ` set kwargs \<Longrightarrow> \<exists>out. str_format ps kwargs = Inr out"
proof (induction ps)
  case Nil
  then show ?case by simp
next
  case (Cons p ps)
  show ?case
  proof (cases p)
    case (Lit s)
    with Cons show ?thesis by auto
  next
    case (Field k)
    with Cons.prems have "k \<in> fst ` set kwargs" by simp
    then obtain v where "map_of kwargs k = Some v"
      by (metis domD dom_map_of_conv_image_fst)
    moreover from Cons Field obtain out where "str_format ps kwargs = Inr out" by auto
    ultimately show ?thesis using Field by simp
  qed
qed

lemma str_format_KeyError:
  "str_format ps kwargs = Inl e \<Longrightarrow>
   \<exists>k \<in> set (field_names ps). k \<notin> fst ` set kwargs \<and> e = KeyError k"
proof (induction ps)
  case Nil
  then show ?case by simp
next
  case (Cons p ps)
  show ?case
  proof (cases p)
    case (Lit s)
    with Cons show ?thesis by (auto split: sum.splits)
  next
    case (Field k)
    show ?thesis
    proof (cases "map_of kwargs k")
      case None
      then have "k \<notin> fst ` set kwargs"
        by (simp add: map_of_eq_None_iff)
      with Cons.prems Field None show ?thesis by simp
    next
      case (Some v)
      with Cons Field show ?thesis by (auto split: sum.splits)
    qed
  qed
qed

lemma str_format_field_sublist:
  "str_format ps kwargs = Inr out \<Longrightarrow> k \<in> set (field_names ps) \<Longrightarrow> map_of kwargs k = Some v \<Longrightarrow>
   sublist v out"
proof (induction ps arbitrary: out)
  case Nil
  then show ?case by simp
next
  case (Cons p ps)
  show ?case
  proof (cases p)
    case (Lit s)
    with Cons.prems obtain out' where o: "str_format ps kwargs = Inr out'" "out = s @ out'"
      by (auto split: sum.splits)
    with Cons Lit have "sublist v out'" by simp
    with o show ?thesis by (simp add: sublist_append)
  next
    case (Field k')
    with Cons.prems obtain v' out' where
      o: "map_of kwargs k' = Some v'" "str_format ps kwargs = Inr out'" "out = v' @ out'"
      by (auto split: sum.splits option.splits)
    show ?thesis
    proof (cases "k = k'")
      case True
      with o Cons.prems(3) show ?thesis by simp
    next
      case False
      with Cons Field o have "sublist v out'" by simp
      with o show ?thesis by (simp add: sublist_append)
    qed
  qed
qed

lemma fields_DEFAULT_CSS:
  "set (field_names DEFAULT_CSS) =
     {''font_family'', ''text_color'', ''bg_color'', ''header_bg_start'', ''header_bg_end'',
      ''nav_bg'', ''nav_link_color'', ''accent_color'', ''section_bg'', ''heading_color'',
      ''card_bg'', ''border_color'', ''muted_color'', ''chart_bg'', ''table_header_bg'',
      ''table_hover_bg'', ''tag_bg'', ''tag_color'', ''footer_bg'', ''footer_text''}"
  unfolding DEFAULT_CSS_def by (simp add: insert_commute)

lemma fields_HTML_TEMPLATE:
  "field_names HTML_TEMPLATE =
     [''author'', ''description'', ''title'', ''css_content'', ''header_html'',
      ''navigation_html'', ''main_content_html'', ''footer_html'', ''javascript_content'']"
  unfolding HTML_TEMPLATE_def by simp


lemma keys_dict_update:
  "fst ` set (dict_update d other) = fst ` set d \<union> fst ` set other"
  unfolding dict_update_def
proof (induction other arbitrary: d)
  case Nil
  show ?case by simp
next
  case (Cons kv other)
  obtain k v where kv: "kv = (k, v)" by (cases kv)
  show ?case
    using Cons.IH [of "AList.update k v d"] by (simp add: kv dom_update)
qed

lemma map_of_dict_update_single:
  "map_of (dict_update d [(k, v)]) = (map_of d)(k \<mapsto> v)"
  by (simp add: dict_update_def update_conv')

lemma build_color_scheme_cases:
  "build_color_scheme theme =
     (if theme = ''light'' then light_scheme
      else if theme = ''dark'' then dark_scheme
      else if theme = ''minimal'' then minimal_scheme
      else light_scheme)"
  by (simp add: build_color_scheme_def schemes_def)

lemma keys_light_scheme: "set (field_names DEFAULT_CSS) \<subseteq> fst ` set light_scheme"
  unfolding fields_DEFAULT_CSS by (simp add: light_scheme_def)

lemma keys_dark_scheme: "set (field_names DEFAULT_CSS) \<subseteq> fst ` set dark_scheme"
  unfolding fields_DEFAULT_CSS by (simp add: dark_scheme_def)

lemma keys_minimal_scheme: "set (field_names DEFAULT_CSS) \<subseteq> fst ` set minimal_scheme"
  unfolding fields_DEFAULT_CSS by (simp add: minimal_scheme_def)

lemma keys_build_color_scheme:
  "set (field_names DEFAULT_CSS) \<subseteq> fst ` set (build_color_scheme theme)"
  by (simp add: build_color_scheme_cases keys_light_scheme keys_dark_scheme keys_minimal_scheme)

lemma keys_merged_colors:
  "set (field_names DEFAULT_CSS) \<subseteq> fst ` set (merged_colors theme custom_colors)"
  using keys_build_color_scheme [of theme]
  by (auto simp: merged_colors_def Let_def keys_dict_update split: option.splits)

lemma css_total:
  "\<exists>css_content. str_format DEFAULT_CSS (merged_colors theme custom_colors) = Inr css_content"
  by (rule str_format_total) (rule keys_merged_colors)

section \<open>The report generator returns\<close>

lemma keys_html_arguments:
  "set (field_names HTML_TEMPLATE) \<subseteq>
     fst ` set (html_arguments title author description css_content header_html navigation_html
                  main_content_html footer_html)"
  by (simp add: fields_HTML_TEMPLATE html_arguments_def)

text \<open>The value of \<open>generate_html_report\<close>, once the style sheet is known.\<close>

lemma generate_html_report_css:
  assumes "str_format DEFAULT_CSS (merged_colors theme custom_colors) = Inr css_content"
  shows "generate_html_report clk n title description sections theme author tags metadata custom_colors =
     (case str_format HTML_TEMPLATE
             (html_arguments title author description css_content
                (generate_header title description (metadata_with_author author metadata))
                (generate_navigation (sections_or_default sections))
                (concat (fst (section_placeholders clk n (sections_or_default sections))))
                (fst (generate_footer clk (snd (section_placeholders clk n (sections_or_default sections))) tags))) of
        Inl e \<Rightarrow> Inl e
      | Inr html \<Rightarrow>
          Inr \<lparr>returned = html,
               metadata_after = map_option (\<lambda>_. metadata_with_author author metadata) metadata,
               clock_after = snd (generate_footer clk (snd (section_placeholders clk n (sections_or_default sections))) tags)\<rparr>)"
  by (simp add: generate_html_report_def assms Let_def case_prod_beta)

lemma generate_html_report_total:
  obtains css_content html where
    "str_format DEFAULT_CSS (merged_colors theme custom_colors) = Inr css_content"
    "str_format HTML_TEMPLATE
       (html_arguments title author description css_content
          (generate_header title description (metadata_with_author author metadata))
          (generate_navigation (sections_or_default sections))
          (concat (fst (section_placeholders clk n (sections_or_default sections))))
          (fst (generate_footer clk (snd (section_placeholders clk n (sections_or_default sections))) tags))) = Inr html"
    "generate_html_report clk n title description sections theme author tags metadata custom_colors =
       Inr \<lparr>returned = html,
            metadata_after = map_option (\<lambda>_. metadata_with_author author metadata) metadata,
            clock_after = snd (generate_footer clk (snd (section_placeholders clk n (sections_or_default sections))) tags)\<rparr>"
proof -
  obtain css_content where
    css: "str_format DEFAULT_CSS (merged_colors theme custom_colors) = Inr css_content"
    using css_total by blast
  obtain html where
    doc: "str_format HTML_TEMPLATE
       (html_arguments title author description css_content
          (generate_header title description (metadata_with_author author metadata))
          (generate_navigation (sections_or_default sections))
          (concat (fst (section_placeholders clk n (sections_or_default sections))))
          (fst (generate_footer clk (snd (section_placeholders clk n (sections_or_default sections))) tags))) = Inr html"
    using str_format_total [OF keys_html_arguments] by blast
  show thesis
    by (rule that [OF css doc]) (simp add: generate_html_report_css [OF css] doc)
qed

lemma str_title_defaults:
  "str_title ''summary'' = ''Summary''"
  "str_title ''metrics'' = ''Metrics''"
  "str_title ''visualizations'' = ''Visualizations''"
  by (simp_all add: str_title_def upper_char_def lower_char_def is_cased_def
        ascii_uppercase_def ascii_lowercase_def)


section \<open>The style sheet and the palettes\<close>

lemma str_format_Inl_or_Inr:
  "(set (field_names ps) \<subseteq> fst ` set kwargs \<and> (\<exists>out. str_format ps kwargs = Inr out))
   \<or> (\<exists>k \<in> set (field_names ps). k \<notin> fst ` set kwargs \<and> str_format ps kwargs = Inl (KeyError k))"
proof (cases "str_format ps kwargs")
  case (Inl e)
  then show ?thesis using str_format_KeyError [of ps kwargs e] by auto
next
  case (Inr out)
  have "set (field_names ps) \<subseteq> fst ` set kwargs"
  proof (rule ccontr)
    assume "\<not> set (field_names ps) \<subseteq> fst ` set kwargs"
    then obtain k where k: "k \<in> set (field_names ps)" "k \<notin> fst ` set kwargs" by auto
    have "\<And>out. k \<in> set (field_names ps) \<Longrightarrow> str_format ps kwargs \<noteq> Inr out"
    proof (induction ps)
      case Nil
      then show ?case by simp
    next
      case (Cons p ps)
      show ?case
      proof (cases p)
        case (Lit s)
        with Cons show ?thesis by (auto split: sum.splits)
      next
        case (Field k')
        show ?thesis
        proof (cases "k' = k")
          case True
          with k(2) have "map_of kwargs k' = None" by (simp add: map_of_eq_None_iff)
          with Field show ?thesis by simp
        next
          case False
          with Cons Field show ?thesis by (auto split: sum.splits option.splits)
        qed
      qed
    qed
    with k(1) Inr show False by blast
  qed
  with Inr show ?thesis by simp
qed

text \<open>
  Claim C9. After the selected palette is merged with the caller's overrides, every key
  the CSS template names is in the merged dictionary, or else the rendering fails with
  a KeyError for a key that is missing; and for every theme name (the three built-in
  themes and the names that fall back to the light palette) merged with any overrides,
  all the keys are there, the style sheet is rendered and the report is returned.
\<close>

theorem css_keys_present_or_KeyError:
  "((set (field_names DEFAULT_CSS) \<subseteq> fst ` set colors
       \<and> (\<exists>css_content. str_format DEFAULT_CSS colors = Inr css_content))
     \<or> (\<exists>k \<in> set (field_names DEFAULT_CSS).
           k \<notin> fst ` set colors \<and> str_format DEFAULT_CSS colors = Inl (KeyError k)))
   \<and> set (field_names DEFAULT_CSS) \<subseteq> fst ` set (merged_colors theme custom_colors)
   \<and> (\<exists>css_content. str_format DEFAULT_CSS (merged_colors theme custom_colors) = Inr css_content)
   \<and> (\<exists>r. generate_html_report clk n title description sections theme author tags metadata
              custom_colors = Inr r)"
proof (intro conjI)
  show "(set (field_names DEFAULT_CSS) \<subseteq> fst ` set colors
       \<and> (\<exists>css_content. str_format DEFAULT_CSS colors = Inr css_content))
     \<or> (\<exists>k \<in> set (field_names DEFAULT_CSS).
           k \<notin> fst ` set colors \<and> str_format DEFAULT_CSS colors = Inl (KeyError k))"
    by (rule str_format_Inl_or_Inr)
  show "set (field_names DEFAULT_CSS) \<subseteq> fst ` set (merged_colors theme custom_colors)"
    by (rule keys_merged_colors)
  show "\<exists>css_content. str_format DEFAULT_CSS (merged_colors theme custom_colors) = Inr css_content"
    by (rule css_total)
  show "\<exists>r. generate_html_report clk n title description sections theme author tags metadata
              custom_colors = Inr r"
    by (rule generate_html_report_total
          [of theme custom_colors title author description metadata sections clk n tags]) blast
qed

theorem css_keys_present_or_KeyError_witness:
  "(\<exists>k \<in> set (field_names DEFAULT_CSS).
        k \<notin> fst ` set [(''accent_color'', ''#123456'')]
      \<and> str_format DEFAULT_CSS [(''accent_color'', ''#123456'')] = Inl (KeyError k))
   \<and> (\<exists>css_content.
         str_format DEFAULT_CSS (merged_colors ''dark'' (Some [(''accent_color'', ''#123456'')]))
           = Inr css_content)"
proof -
  have "\<not> set (field_names DEFAULT_CSS) \<subseteq> fst ` set [(''accent_color'', ''#123456'')]"
    by (simp add: fields_DEFAULT_CSS)
  then show ?thesis
    using css_keys_present_or_KeyError
            [of "[(''accent_color'', ''#123456'')]" "''dark''" "Some [(''accent_color'', ''#123456'')]"]
    by blast
qed

lemma build_color_scheme_unknown:
  "theme \<notin> {''light'', ''dark'', ''minimal''} \<Longrightarrow> build_color_scheme theme = light_scheme"
  by (simp add: build_color_scheme_cases)

lemma build_color_scheme_light: "build_color_scheme ''light'' = light_scheme"
  by (simp add: build_color_scheme_cases)

text \<open>
  Claim C4. For a theme name that is none of \<open>light\<close>, \<open>dark\<close> and \<open>minimal\<close>, the
  palette selected is the light palette, and the report is rendered without an error:
  it is the report of the theme \<open>light\<close>.
\<close>

theorem unknown_theme_falls_back_to_light:
  assumes "theme \<notin> {''light'', ''dark'', ''minimal''}"
  shows "build_color_scheme theme = light_scheme
       \<and> build_color_scheme theme = build_color_scheme ''light''
       \<and> (\<exists>r. generate_html_report clk n title description sections theme author tags metadata
                  custom_colors = Inr r)
       \<and> generate_html_report clk n title description sections theme author tags metadata
            custom_colors
          = generate_html_report clk n title description sections ''light'' author tags metadata
              custom_colors"
proof -
  have pal: "build_color_scheme theme = build_color_scheme ''light''"
    using assms by (simp add: build_color_scheme_unknown build_color_scheme_light)
  have "merged_colors theme custom_colors = merged_colors ''light'' custom_colors"
    by (simp add: merged_colors_def pal)
  then have same: "generate_html_report clk n title description sections theme author tags metadata
            custom_colors
          = generate_html_report clk n title description sections ''light'' author tags metadata
              custom_colors"
    by (simp add: generate_html_report_def)
  have "\<exists>r. generate_html_report clk n title description sections theme author tags metadata
                  custom_colors = Inr r"
    by (rule generate_html_report_total
          [of theme custom_colors title author description metadata sections clk n tags]) blast
  with pal same assms show ?thesis
    by (simp add: build_color_scheme_unknown)
qed

theorem unknown_theme_falls_back_to_light_witness:
  "build_color_scheme ''custom'' = light_scheme
   \<and> (\<exists>r. generate_html_report
              (frozen_clock \<lparr>year = 2024, month = 1, day = 15, hour = 9, minute = 30, second = 0\<rparr>)
              0 ''Analysis Report'' None None ''custom'' None None None None = Inr r)"
proof -
  have h: "''custom'' \<notin> {''light'', ''dark'', ''minimal''}" by simp
  from unknown_theme_falls_back_to_light
          [OF h, of "frozen_clock \<lparr>year = 2024, month = 1, day = 15, hour = 9, minute = 30, second = 0\<rparr>"
              0 "''Analysis Report''" None None None None None None]
  show ?thesis by blast
qed

text \<open>The style sheet, and with it the report, shows the value of every key of the palette
  that the template names.\<close>

lemma report_contains_color:
  assumes "generate_html_report clk n title description sections theme author tags metadata
             custom_colors = Inr r"
      and "k \<in> set (field_names DEFAULT_CSS)"
      and "map_of (merged_colors theme custom_colors) k = Some v"
  shows "sublist v (returned r)"
proof -
  obtain css_content html where
    css: "str_format DEFAULT_CSS (merged_colors theme custom_colors) = Inr css_content" and
    doc: "str_format HTML_TEMPLATE
       (html_arguments title author description css_content
          (generate_header title description (metadata_with_author author metadata))
          (generate_navigation (sections_or_default sections))
          (concat (fst (section_placeholders clk n (sections_or_default sections))))
          (fst (generate_footer clk (snd (section_placeholders clk n (sections_or_default sections))) tags)))
        = Inr html" and
    res: "generate_html_report clk n title description sections theme author tags metadata custom_colors =
       Inr \<lparr>returned = html,
            metadata_after = map_option (\<lambda>_. metadata_with_author author metadata) metadata,
            clock_after = snd (generate_footer clk (snd (section_placeholders clk n (sections_or_default sections))) tags)\<rparr>"
    by (rule generate_html_report_total)
  have "sublist v css_content"
    using css assms(2,3) by (rule str_format_field_sublist)
  moreover have "sublist css_content html"
    by (rule str_format_field_sublist [OF doc, of "''css_content''"])
       (simp_all add: fields_HTML_TEMPLATE html_arguments_def)
  ultimately have "sublist v html"
    by (rule sublist_order.order_trans)
  with res assms(1) show ?thesis by simp
qed

text \<open>Every call returns; what it returns and what it leaves behind.\<close>

lemma generate_html_report_result:
  "\<exists>r css_content.
     generate_html_report clk n title description sections theme author tags metadata custom_colors
       = Inr r
   \<and> str_format DEFAULT_CSS (merged_colors theme custom_colors) = Inr css_content
   \<and> str_format HTML_TEMPLATE
       (html_arguments title author description css_content
          (generate_header title description (metadata_with_author author metadata))
          (generate_navigation (sections_or_default sections))
          (concat (fst (section_placeholders clk n (sections_or_default sections))))
          (fst (generate_footer clk (snd (section_placeholders clk n (sections_or_default sections))) tags)))
       = Inr (returned r)
   \<and> metadata_after r = map_option (\<lambda>_. metadata_with_author author metadata) metadata
   \<and> clock_after r =
       snd (generate_footer clk (snd (section_placeholders clk n (sections_or_default sections))) tags)"
proof -
  obtain css_content html where
    "str_format DEFAULT_CSS (merged_colors theme custom_colors) = Inr css_content"
    "str_format HTML_TEMPLATE
       (html_arguments title author description css_content
          (generate_header title description (metadata_with_author author metadata))
          (generate_navigation (sections_or_default sections))
          (concat (fst (section_placeholders clk n (sections_or_default sections))))
          (fst (generate_footer clk (snd (section_placeholders clk n (sections_or_default sections))) tags)))
        = Inr html"
    "generate_html_report clk n title description sections theme author tags metadata custom_colors =
       Inr \<lparr>returned = html,
            metadata_after = map_option (\<lambda>_. metadata_with_author author metadata) metadata,
            clock_after = snd (generate_footer clk (snd (section_placeholders clk n (sections_or_default sections))) tags)\<rparr>"
    by (rule generate_html_report_total)
  then show ?thesis by simp
qed

lemma report_contains_argument:
  assumes "str_format HTML_TEMPLATE
             (html_arguments title author description css_content header_html navigation_html
                main_content_html footer_html) = Inr html"
  shows "sublist title html" and "sublist css_content html" and "sublist header_html html"
    and "sublist navigation_html html" and "sublist main_content_html html"
    and "sublist footer_html html"
proof -
  show "sublist title html"
    by (rule str_format_field_sublist [OF assms, of "''title''"])
       (simp_all add: fields_HTML_TEMPLATE html_arguments_def)
  show "sublist css_content html"
    by (rule str_format_field_sublist [OF assms, of "''css_content''"])
       (simp_all add: fields_HTML_TEMPLATE html_arguments_def)
  show "sublist header_html html"
    by (rule str_format_field_sublist [OF assms, of "''header_html''"])
       (simp_all add: fields_HTML_TEMPLATE html_arguments_def)
  show "sublist navigation_html html"
    by (rule str_format_field_sublist [OF assms, of "''navigation_html''"])
       (simp_all add: fields_HTML_TEMPLATE html_arguments_def)
  show "sublist main_content_html html"
    by (rule str_format_field_sublist [OF assms, of "''main_content_html''"])
       (simp_all add: fields_HTML_TEMPLATE html_arguments_def)
  show "sublist footer_html html"
    by (rule str_format_field_sublist [OF assms, of "''footer_html''"])
       (simp_all add: fields_HTML_TEMPLATE html_arguments_def)
qed

lemma merged_colors_light_accent:
  "map_of (merged_colors ''light'' (Some [(''accent_color'', v)])) =
     (map_of light_scheme)(''accent_color'' \<mapsto> v)"
  by (simp add: merged_colors_def build_color_scheme_light map_of_dict_update_single)

lemma light_scheme_values:
  "map_of light_scheme ''accent_color'' = Some ''#667eea''"
  "map_of light_scheme ''header_bg_start'' = Some ''#667eea''"
  "map_of light_scheme ''table_header_bg'' = Some ''#667eea''"
  by (simp_all add: light_scheme_def)

lemma accent_override_report:
  "\<exists>r. generate_html_report clk n title description sections ''light'' author tags metadata
          (Some [(''accent_color'', ''#123456'')]) = Inr r
     \<and> sublist ''#123456'' (returned r)
     \<and> sublist ''#667eea'' (returned r)"
proof -
  let ?cc = "Some [(''accent_color'', ''#123456'')]"
  obtain r where
    r: "generate_html_report clk n title description sections ''light'' author tags metadata ?cc = Inr r"
    using generate_html_report_result by blast
  have "sublist ''#123456'' (returned r)"
    by (rule report_contains_color [OF r, of "''accent_color''"])
       (simp_all add: fields_DEFAULT_CSS merged_colors_light_accent)
  moreover have "sublist ''#667eea'' (returned r)"
    by (rule report_contains_color [OF r, of "''header_bg_start''"])
       (simp_all add: fields_DEFAULT_CSS merged_colors_light_accent light_scheme_values)
  ultimately show ?thesis using r by blast
qed

text \<open>
  Claim C1, as the code has it. With the theme \<open>light\<close> and the override
  \<open>{accent_color: "#123456"}\<close>, whatever the other arguments, the report is returned and
  contains \<open>#123456\<close>: the merged palette has \<open>#123456\<close> for \<open>accent_color\<close>, and every
  other key keeps its light value. The report still contains \<open>#667eea\<close>, the default
  light accent value, since the light palette has the same value for
  \<open>header_bg_start\<close> and \<open>table_header_bg\<close>, which the template also names.
\<close>

theorem accent_override_light:
  "(\<exists>r. generate_html_report clk n title description sections ''light'' author tags metadata
          (Some [(''accent_color'', ''#123456'')]) = Inr r
       \<and> sublist ''#123456'' (returned r)
       \<and> sublist ''#667eea'' (returned r))
   \<and> map_of (merged_colors ''light'' (Some [(''accent_color'', ''#123456'')])) ''accent_color''
       = Some ''#123456''
   \<and> map_of (merged_colors ''light'' (Some [(''accent_color'', ''#123456'')])) ''header_bg_start''
       = Some ''#667eea''
   \<and> map_of (merged_colors ''light'' (Some [(''accent_color'', ''#123456'')])) ''table_header_bg''
       = Some ''#667eea''
   \<and> (k \<noteq> ''accent_color'' \<longrightarrow>
        map_of (merged_colors ''light'' (Some [(''accent_color'', ''#123456'')])) k
          = map_of (build_color_scheme ''light'') k)"
  using accent_override_report [of clk n title description sections author tags metadata]
  by (simp add: merged_colors_light_accent light_scheme_values build_color_scheme_light)

theorem accent_override_light_witness:
  "(\<exists>r. generate_html_report
           (frozen_clock \<lparr>year = 2024, month = 1, day = 15, hour = 9, minute = 30, second = 0\<rparr>)
           0 ''Analysis Report'' None None ''light'' None None None
           (Some [(''accent_color'', ''#123456'')]) = Inr r
       \<and> sublist ''#123456'' (returned r))
   \<and> map_of (merged_colors ''light'' (Some [(''accent_color'', ''#123456'')])) ''nav_bg''
       = map_of (build_color_scheme ''light'') ''nav_bg''"
proof -
  have h: "''nav_bg'' \<noteq> ''accent_color''" by simp
  from accent_override_light
         [of "frozen_clock \<lparr>year = 2024, month = 1, day = 15, hour = 9, minute = 30, second = 0\<rparr>"
             0 "''Analysis Report''" None None None None None "''nav_bg''"] h
  show ?thesis by blast
qed

text \<open>
  The claim as the specification states it fails: the report for the title
  \<open>Analysis Report\<close>, the theme \<open>light\<close> and the override alone is returned, contains
  \<open>#123456\<close> and contains \<open>#667eea\<close>.
\<close>

theorem accent_override_light_counterexample:
  "\<not> isl (generate_html_report
             (frozen_clock \<lparr>year = 2024, month = 1, day = 15, hour = 9, minute = 30, second = 0\<rparr>)
             0 ''Analysis Report'' None None ''light'' None None None
             (Some [(''accent_color'', ''#123456'')]))
   \<and> sublist ''#123456''
        (returned (projr (generate_html_report
             (frozen_clock \<lparr>year = 2024, month = 1, day = 15, hour = 9, minute = 30, second = 0\<rparr>)
             0 ''Analysis Report'' None None ''light'' None None None
             (Some [(''accent_color'', ''#123456'')]))))
   \<and> sublist ''#667eea''
        (returned (projr (generate_html_report
             (frozen_clock \<lparr>year = 2024, month = 1, day = 15, hour = 9, minute = 30, second = 0\<rparr>)
             0 ''Analysis Report'' None None ''light'' None None None
             (Some [(''accent_color'', ''#123456'')]))))"
  using accent_override_report
          [of "frozen_clock \<lparr>year = 2024, month = 1, day = 15, hour = 9, minute = 30, second = 0\<rparr>"
              0 "''Analysis Report''" None None None None None]
  by auto

section \<open>The metadata dictionary and the author\<close>

lemma metadata_with_author_cases:
  "metadata_with_author None metadata = (case metadata of None \<Rightarrow> [] | Some md \<Rightarrow> md)"
  "metadata_with_author (Some '''') metadata = (case metadata of None \<Rightarrow> [] | Some md \<Rightarrow> md)"
  "a \<noteq> '''' \<Longrightarrow> metadata_with_author (Some a) metadata =
     AList.update ''Author'' (PStr a) (case metadata of None \<Rightarrow> [] | Some md \<Rightarrow> md)"
  by (simp_all add: metadata_with_author_def)

lemma metadata_after_report:
  "\<exists>r. generate_html_report clk n title description sections theme author tags metadata
          custom_colors = Inr r
     \<and> metadata_after r = map_option (\<lambda>_. metadata_with_author author metadata) metadata"
  using generate_html_report_result
          [of clk n title description sections theme author tags metadata custom_colors]
  by blast






lemma sublist_appI1: "sublist x a \<Longrightarrow> sublist x (a @ b)"
  by (simp add: sublist_append)

lemma sublist_appI2: "sublist x b \<Longrightarrow> sublist x (a @ b)"
  by (simp add: sublist_append)

lemma member_sublist_concat: "x \<in> set xs \<Longrightarrow> sublist x (concat xs)"
proof (induction xs)
  case Nil
  then show ?case by simp
next
  case (Cons y ys)
  then show ?case by (auto intro: sublist_appI1 sublist_appI2)
qed

text \<open>The header shows every entry of the metadata whose value is true.\<close>

lemma header_shows_entry:
  assumes "(key, value) \<in> set metadata" and "truthy value"
  shows \<open>sublist (''<div class="metadata-item"><span class="metadata-label">'' @ key @
                    '':</span> '' @ py_str value @ ''</div>'')
           (generate_header title description metadata)\<close>
proof -
  let ?item = \<open>\<lambda>(key, value). ''<div class="metadata-item"><span class="metadata-label">'' @ key @
                    '':</span> '' @ py_str value @ ''</div>''\<close>
  let ?items = "map ?item (filter (\<lambda>(key, value). truthy value) metadata)"
  have "?item (key, value) \<in> set ?items"
    using assms by force
  then have "sublist (?item (key, value)) (concat ?items)"
    by (rule member_sublist_concat)
  then have c: \<open>sublist (''<div class="metadata-item"><span class="metadata-label">'' @ key @
                    '':</span> '' @ py_str value @ ''</div>'') (concat ?items)\<close>
    by simp
  have m: \<open>sublist (''<div class="metadata-item"><span class="metadata-label">'' @ key @
                    '':</span> '' @ py_str value @ ''</div>'')
             (''<div class="metadata">'' @ concat ?items @ ''</div>'')\<close>
    by (rule sublist_appI2, rule sublist_appI1, rule c)
  have ne: "metadata \<noteq> [] \<and> ?items \<noteq> []"
    using assms by (auto simp: filter_empty_conv)
  show ?thesis
    unfolding generate_header_def Let_def if_P [OF ne]
    by (rule sublist_appI1 [OF m] | rule sublist_appI2)+
qed

lemma filter_key_update:
  "distinct (map fst d) \<Longrightarrow>
   filter (\<lambda>(key, value). key = k) (AList.update k v d) = [(k, v)]"
proof (induction d)
  case Nil
  then show ?case by simp
next
  case (Cons p d)
  show ?case
  proof (cases "fst p = k")
    case True
    from Cons.prems have "fst p \<notin> fst ` set d" by simp
    with True have "\<forall>q \<in> set d. fst q \<noteq> k" by (metis imageI)
    then have "filter (\<lambda>(key, value). key = k) d = []"
      by (auto simp: filter_empty_conv)
    with True show ?thesis by simp
  next
    case False
    with Cons show ?thesis by (simp add: case_prod_beta)
  qed
qed

lemma update_member: "(k, v) \<in> set (AList.update k v d)"
  by (induction d) auto

text \<open>
  Claim C7, as the code has it. A non-empty author is assigned to the key \<open>Author\<close> of
  the metadata dictionary, in the place of the value the caller's dictionary had for
  that key; the header of the report is the header of the updated dictionary, it shows
  the author, and the only \<open>Author\<close> entry it is generated from is the author's. An
  author that is \<open>None\<close> or the empty string is not inserted: the dictionary is left as
  it was, the header of the report is the header of that dictionary, and it shows the
  caller's \<open>Author\<close> entry when the value of that entry is true.
\<close>

theorem author_overwrites_metadata:
  assumes "distinct (map fst (case metadata of None \<Rightarrow> [] | Some md \<Rightarrow> md))"
  shows \<open>(a \<noteq> '''' \<longrightarrow>
           (\<exists>r. generate_html_report clk n title description sections theme (Some a) tags metadata
                  custom_colors = Inr r
              \<and> metadata_with_author (Some a) metadata =
                  AList.update ''Author'' (PStr a) (case metadata of None \<Rightarrow> [] | Some md \<Rightarrow> md)
              \<and> metadata_after r = map_option (\<lambda>md. AList.update ''Author'' (PStr a) md) metadata
              \<and> map_of (metadata_with_author (Some a) metadata) ''Author'' = Some (PStr a)
              \<and> filter (\<lambda>(key, value). key = ''Author'') (metadata_with_author (Some a) metadata)
                  = [(''Author'', PStr a)]
              \<and> sublist (generate_header title description (metadata_with_author (Some a) metadata))
                  (returned r)
              \<and> sublist (''<div class="metadata-item"><span class="metadata-label">'' @ ''Author'' @
                           '':</span> '' @ a @ ''</div>'')
                  (generate_header title description (metadata_with_author (Some a) metadata))))
        \<and> (author = None \<or> author = Some '''' \<longrightarrow>
           (\<exists>r. generate_html_report clk n title description sections theme author tags metadata
                  custom_colors = Inr r
              \<and> metadata_with_author author metadata =
                  (case metadata of None \<Rightarrow> [] | Some md \<Rightarrow> md)
              \<and> metadata_after r = metadata
              \<and> sublist (generate_header title description
                           (case metadata of None \<Rightarrow> [] | Some md \<Rightarrow> md))
                  (returned r)
              \<and> (\<forall>v. (''Author'', v) \<in> set (case metadata of None \<Rightarrow> [] | Some md \<Rightarrow> md)
                       \<and> truthy v \<longrightarrow>
                     sublist (''<div class="metadata-item"><span class="metadata-label">'' @ ''Author'' @
                                '':</span> '' @ py_str v @ ''</div>'')
                       (generate_header title description
                          (case metadata of None \<Rightarrow> [] | Some md \<Rightarrow> md)))))\<close>
proof (intro conjI impI)
  assume a: "a \<noteq> ''''"
  let ?md0 = "case metadata of None \<Rightarrow> [] | Some md \<Rightarrow> md"
  have mwa: "metadata_with_author (Some a) metadata = AList.update ''Author'' (PStr a) ?md0"
    using a by (simp add: metadata_with_author_cases)
  obtain r css_content where
    r: "generate_html_report clk n title description sections theme (Some a) tags metadata
          custom_colors = Inr r"
    and doc: "str_format HTML_TEMPLATE
       (html_arguments title (Some a) description css_content
          (generate_header title description (metadata_with_author (Some a) metadata))
          (generate_navigation (sections_or_default sections))
          (concat (fst (section_placeholders clk n (sections_or_default sections))))
          (fst (generate_footer clk (snd (section_placeholders clk n (sections_or_default sections))) tags)))
       = Inr (returned r)"
    and after: "metadata_after r = map_option (\<lambda>_. metadata_with_author (Some a) metadata) metadata"
    using generate_html_report_result
            [of clk n title description sections theme "Some a" tags metadata custom_colors]
    by blast
  have after': "metadata_after r = map_option (\<lambda>md. AList.update ''Author'' (PStr a) md) metadata"
    using after mwa by (cases metadata) simp_all
  have look: "map_of (metadata_with_author (Some a) metadata) ''Author'' = Some (PStr a)"
    by (simp add: mwa update_conv')
  have only: "filter (\<lambda>(key, value). key = ''Author'') (metadata_with_author (Some a) metadata)
               = [(''Author'', PStr a)]"
    unfolding mwa using assms by (rule filter_key_update)
  have hdr: "sublist (generate_header title description (metadata_with_author (Some a) metadata))
               (returned r)"
    using doc by (rule report_contains_argument(3))
  have \<open>sublist (''<div class="metadata-item"><span class="metadata-label">'' @ ''Author'' @
                        '':</span> '' @ py_str (PStr a) @ ''</div>'')
               (generate_header title description (metadata_with_author (Some a) metadata))\<close>
    by (rule header_shows_entry) (simp_all add: mwa update_member a)
  then have shown: \<open>sublist (''<div class="metadata-item"><span class="metadata-label">'' @ ''Author'' @
                        '':</span> '' @ a @ ''</div>'')
               (generate_header title description (metadata_with_author (Some a) metadata))\<close>
    by (simp only: py_str.simps)
  from r mwa after' look only hdr shown
  show \<open>\<exists>r. generate_html_report clk n title description sections theme (Some a) tags metadata
                  custom_colors = Inr r
              \<and> metadata_with_author (Some a) metadata =
                  AList.update ''Author'' (PStr a) (case metadata of None \<Rightarrow> [] | Some md \<Rightarrow> md)
              \<and> metadata_after r = map_option (\<lambda>md. AList.update ''Author'' (PStr a) md) metadata
              \<and> map_of (metadata_with_author (Some a) metadata) ''Author'' = Some (PStr a)
              \<and> filter (\<lambda>(key, value). key = ''Author'') (metadata_with_author (Some a) metadata)
                  = [(''Author'', PStr a)]
              \<and> sublist (generate_header title description (metadata_with_author (Some a) metadata))
                  (returned r)
              \<and> sublist (''<div class="metadata-item"><span class="metadata-label">'' @ ''Author'' @
                           '':</span> '' @ a @ ''</div>'')
                  (generate_header title description (metadata_with_author (Some a) metadata))\<close>
    by blast
next
  assume none: "author = None \<or> author = Some ''''"
  let ?md0 = "case metadata of None \<Rightarrow> [] | Some md \<Rightarrow> md"
  have mwa: "metadata_with_author author metadata = ?md0"
    using none by (auto simp: metadata_with_author_cases)
  obtain r css_content where
    r: "generate_html_report clk n title description sections theme author tags metadata
          custom_colors = Inr r"
    and doc: "str_format HTML_TEMPLATE
       (html_arguments title author description css_content
          (generate_header title description (metadata_with_author author metadata))
          (generate_navigation (sections_or_default sections))
          (concat (fst (section_placeholders clk n (sections_or_default sections))))
          (fst (generate_footer clk (snd (section_placeholders clk n (sections_or_default sections))) tags)))
       = Inr (returned r)"
    and after: "metadata_after r = map_option (\<lambda>_. metadata_with_author author metadata) metadata"
    using generate_html_report_result
            [of clk n title description sections theme author tags metadata custom_colors]
    by blast
  have after': "metadata_after r = metadata"
    using after mwa by (cases metadata) simp_all
  have hdr: "sublist (generate_header title description ?md0) (returned r)"
    using report_contains_argument(3) [OF doc] by (simp only: mwa)
  have shown: \<open>\<forall>v. (''Author'', v) \<in> set ?md0 \<and> truthy v \<longrightarrow>
                     sublist (''<div class="metadata-item"><span class="metadata-label">'' @ ''Author'' @
                                '':</span> '' @ py_str v @ ''</div>'')
                       (generate_header title description ?md0)\<close>
    using header_shows_entry [of "''Author''" _ ?md0 title description] by blast
  from r mwa after' hdr shown
  show \<open>\<exists>r. generate_html_report clk n title description sections theme author tags metadata
                  custom_colors = Inr r
              \<and> metadata_with_author author metadata =
                  (case metadata of None \<Rightarrow> [] | Some md \<Rightarrow> md)
              \<and> metadata_after r = metadata
              \<and> sublist (generate_header title description
                           (case metadata of None \<Rightarrow> [] | Some md \<Rightarrow> md))
                  (returned r)
              \<and> (\<forall>v. (''Author'', v) \<in> set (case metadata of None \<Rightarrow> [] | Some md \<Rightarrow> md)
                       \<and> truthy v \<longrightarrow>
                     sublist (''<div class="metadata-item"><span class="metadata-label">'' @ ''Author'' @
                                '':</span> '' @ py_str v @ ''</div>'')
                       (generate_header title description
                          (case metadata of None \<Rightarrow> [] | Some md \<Rightarrow> md)))\<close>
    by blast
qed

theorem author_overwrites_metadata_witness:
  \<open>(\<exists>r. generate_html_report
          (frozen_clock \<lparr>year = 2024, month = 1, day = 15, hour = 9, minute = 30, second = 0\<rparr>)
          0 ''Analysis Report'' None None ''light'' (Some ''Jane Smith'') None
          (Some [(''Author'', PStr ''Somebody Else''), (''Status'', PStr ''Complete'')]) None = Inr r
     \<and> metadata_after r = Some [(''Author'', PStr ''Jane Smith''), (''Status'', PStr ''Complete'')])
   \<and> (\<exists>r. generate_html_report
          (frozen_clock \<lparr>year = 2024, month = 1, day = 15, hour = 9, minute = 30, second = 0\<rparr>)
          0 ''Analysis Report'' None None ''light'' None None
          (Some [(''Author'', PStr ''Somebody Else''), (''Status'', PStr ''Complete'')]) None = Inr r
     \<and> metadata_after r = Some [(''Author'', PStr ''Somebody Else''), (''Status'', PStr ''Complete'')]
     \<and> sublist (''<div class="metadata-item"><span class="metadata-label">'' @ ''Author'' @
                  '':</span> '' @ ''Somebody Else'' @ ''</div>'')
         (generate_header ''Analysis Report'' None
            [(''Author'', PStr ''Somebody Else''), (''Status'', PStr ''Complete'')]))\<close>
proof -
  let ?clk = "frozen_clock \<lparr>year = 2024, month = 1, day = 15, hour = 9, minute = 30, second = 0\<rparr>"
  let ?md = "[(''Author'', PStr ''Somebody Else''), (''Status'', PStr ''Complete'')]"
  have h1: "''Jane Smith'' \<noteq> ''''" by simp
  have h2: "distinct (map fst (case Some ?md of None \<Rightarrow> [] | Some md \<Rightarrow> md))"
    by simp
  have h3: "(''Author'', PStr ''Somebody Else'') \<in> set (case Some ?md of None \<Rightarrow> [] | Some md \<Rightarrow> md)
              \<and> truthy (PStr ''Somebody Else'')"
    by simp
  from author_overwrites_metadata
         [OF h2, of "''Jane Smith''" ?clk 0 "''Analysis Report''" None None "''light''" None None,
          THEN conjunct1] h1
  have p1: "\<exists>r. generate_html_report ?clk 0 ''Analysis Report'' None None ''light''
                  (Some ''Jane Smith'') None (Some ?md) None = Inr r
             \<and> metadata_after r = Some [(''Author'', PStr ''Jane Smith''), (''Status'', PStr ''Complete'')]"
    by auto
  from author_overwrites_metadata
         [OF h2, of _ ?clk 0 "''Analysis Report''" None None "''light''" None None None,
          THEN conjunct2] h3
  have p2: \<open>\<exists>r. generate_html_report ?clk 0 ''Analysis Report'' None None ''light'' None None
                  (Some ?md) None = Inr r
             \<and> metadata_after r = Some ?md
             \<and> sublist (''<div class="metadata-item"><span class="metadata-label">'' @ ''Author'' @
                          '':</span> '' @ py_str (PStr ''Somebody Else'') @ ''</div>'')
                 (generate_header ''Analysis Report'' None ?md)\<close>
    by (auto simp only: option.case option.simps simp_thms)
  from p1 p2 show ?thesis by (simp only: py_str.simps)
qed

text \<open>
  The claim as the specification states it fails for an author that is supplied and
  empty: the caller's \<open>Author\<close> entry is kept, and the header shows it.
\<close>

theorem author_overwrites_metadata_counterexample:
  \<open>\<not> isl (generate_html_report
             (frozen_clock \<lparr>year = 2024, month = 1, day = 15, hour = 9, minute = 30, second = 0\<rparr>)
             0 ''Analysis Report'' None None ''light'' (Some '''') None
             (Some [(''Author'', PStr ''Somebody Else'')]) None)
   \<and> metadata_after (projr (generate_html_report
             (frozen_clock \<lparr>year = 2024, month = 1, day = 15, hour = 9, minute = 30, second = 0\<rparr>)
             0 ''Analysis Report'' None None ''light'' (Some '''') None
             (Some [(''Author'', PStr ''Somebody Else'')]) None))
       = Some [(''Author'', PStr ''Somebody Else'')]
   \<and> sublist (''<div class="metadata-item"><span class="metadata-label">'' @ ''Author'' @
                '':</span> '' @ ''Somebody Else'' @ ''</div>'')
        (returned (projr (generate_html_report
             (frozen_clock \<lparr>year = 2024, month = 1, day = 15, hour = 9, minute = 30, second = 0\<rparr>)
             0 ''Analysis Report'' None None ''light'' (Some '''') None
             (Some [(''Author'', PStr ''Somebody Else'')]) None)))\<close>
proof -
  let ?clk = "frozen_clock \<lparr>year = 2024, month = 1, day = 15, hour = 9, minute = 30, second = 0\<rparr>"
  let ?md = "[(''Author'', PStr ''Somebody Else'')]"
  have mwa: "metadata_with_author (Some '''') (Some ?md) = ?md"
    by (simp add: metadata_with_author_cases)
  obtain r css_content where
    r: "generate_html_report ?clk 0 ''Analysis Report'' None None ''light'' (Some '''') None
          (Some ?md) None = Inr r"
    and doc: "str_format HTML_TEMPLATE
       (html_arguments ''Analysis Report'' (Some '''') None css_content
          (generate_header ''Analysis Report'' None (metadata_with_author (Some '''') (Some ?md)))
          (generate_navigation (sections_or_default None))
          (concat (fst (section_placeholders ?clk 0 (sections_or_default None))))
          (fst (generate_footer ?clk (snd (section_placeholders ?clk 0 (sections_or_default None))) None)))
       = Inr (returned r)"
    and after: "metadata_after r = map_option (\<lambda>_. metadata_with_author (Some '''') (Some ?md)) (Some ?md)"
    using generate_html_report_result
            [of ?clk 0 "''Analysis Report''" None None "''light''" "Some ''''" None "Some ?md" None]
    by blast
  have hdr: "sublist (generate_header ''Analysis Report'' None ?md) (returned r)"
    using report_contains_argument(3) [OF doc] by (simp only: mwa)
  have \<open>sublist (''<div class="metadata-item"><span class="metadata-label">'' @ ''Author'' @
                        '':</span> '' @ py_str (PStr ''Somebody Else'') @ ''</div>'')
               (generate_header ''Analysis Report'' None ?md)\<close>
    by (rule header_shows_entry) simp_all
  then have \<open>sublist (''<div class="metadata-item"><span class="metadata-label">'' @ ''Author'' @
                        '':</span> '' @ ''Somebody Else'' @ ''</div>'')
               (generate_header ''Analysis Report'' None ?md)\<close>
    by (simp only: py_str.simps)
  then have \<open>sublist (''<div class="metadata-item"><span class="metadata-label">'' @ ''Author'' @
                        '':</span> '' @ ''Somebody Else'' @ ''</div>'') (returned r)\<close>
    using hdr by (rule sublist_order.order_trans)
  with r after mwa show ?thesis by simp
qed

section \<open>Determinism\<close>

text \<open>With a frozen clock, what is generated does not depend on the number of readings.\<close>

lemma placeholder_frozen:
  "fst (generate_section_placeholder (frozen_clock t) n s) =
   fst (generate_section_placeholder (frozen_clock t) m s)"
  by (simp add: generate_section_placeholder_def Let_def datetime_now_def frozen_clock_def)

lemma placeholders_frozen:
  "fst (section_placeholders (frozen_clock t) n ss) =
   fst (section_placeholders (frozen_clock t) m ss)"
proof (induction ss arbitrary: n m)
  case Nil
  show ?case by simp
next
  case (Cons s ss)
  show ?case
    using placeholder_frozen [of t n s m]
          Cons [of "snd (generate_section_placeholder (frozen_clock t) n s)"
                   "snd (generate_section_placeholder (frozen_clock t) m s)"]
    by (simp add: case_prod_beta)
qed

lemma footer_frozen:
  "fst (generate_footer (frozen_clock t) n tags) = fst (generate_footer (frozen_clock t) m tags)"
  by (simp add: generate_footer_def Let_def datetime_now_def frozen_clock_def)

lemma metadata_with_author_idem:
  "metadata_with_author author (map_option (\<lambda>_. metadata_with_author author metadata) metadata)
     = metadata_with_author author metadata"
proof (cases metadata)
  case None
  then show ?thesis by simp
next
  case (Some md)
  then show ?thesis
    by (auto simp: metadata_with_author_def update_last split: option.splits)
qed

lemma returned_frozen:
  assumes "generate_html_report (frozen_clock t) n title description sections theme author tags
             metadata custom_colors = Inr r"
      and "generate_html_report (frozen_clock t) m title description sections theme author tags
             metadata' custom_colors = Inr r'"
      and "metadata_with_author author metadata' = metadata_with_author author metadata"
  shows "returned r' = returned r"
proof -
  let ?ss = "sections_or_default sections"
  obtain css where css: "str_format DEFAULT_CSS (merged_colors theme custom_colors) = Inr css"
    using css_total by blast
  have frag: "fst (section_placeholders (frozen_clock t) m ?ss) =
              fst (section_placeholders (frozen_clock t) n ?ss)"
    by (rule placeholders_frozen)
  have foot: "fst (generate_footer (frozen_clock t) (snd (section_placeholders (frozen_clock t) m ?ss)) tags) =
              fst (generate_footer (frozen_clock t) (snd (section_placeholders (frozen_clock t) n ?ss)) tags)"
    by (rule footer_frozen)
  from assms(1) have 1:
    "str_format HTML_TEMPLATE
       (html_arguments title author description css
          (generate_header title description (metadata_with_author author metadata))
          (generate_navigation ?ss)
          (concat (fst (section_placeholders (frozen_clock t) n ?ss)))
          (fst (generate_footer (frozen_clock t) (snd (section_placeholders (frozen_clock t) n ?ss)) tags)))
     = Inr (returned r)"
    by (auto simp: generate_html_report_css [OF css] split: sum.splits)
  from assms(2) have 2:
    "str_format HTML_TEMPLATE
       (html_arguments title author description css
          (generate_header title description (metadata_with_author author metadata'))
          (generate_navigation ?ss)
          (concat (fst (section_placeholders (frozen_clock t) m ?ss)))
          (fst (generate_footer (frozen_clock t) (snd (section_placeholders (frozen_clock t) m ?ss)) tags)))
     = Inr (returned r')"
    by (auto simp: generate_html_report_css [OF css] split: sum.splits)
  from 1 2 show ?thesis
    by (simp add: assms(3) frag foot)
qed

text \<open>
  Claim C5. With a frozen clock, two calls of \<open>generate_html_report\<close> with the same
  title, description, sections, theme, author, tags, metadata and colour overrides return
  the same string: the second call made on the very objects of the first (the metadata
  dictionary as the first call left it, the clock read where the first call stopped),
  and a call with equal arguments made after any number of clock readings.
\<close>

theorem generate_html_report_deterministic:
  "\<exists>r1 r2 r3.
      generate_html_report (frozen_clock t) n title description sections theme author tags
        metadata custom_colors = Inr r1
    \<and> generate_html_report (frozen_clock t) (clock_after r1) title description sections theme author
        tags (metadata_after r1) custom_colors = Inr r2
    \<and> generate_html_report (frozen_clock t) m title description sections theme author tags
        metadata custom_colors = Inr r3
    \<and> returned r2 = returned r1
    \<and> returned r3 = returned r1"
proof -
  obtain r1 where
    r1: "generate_html_report (frozen_clock t) n title description sections theme author tags
           metadata custom_colors = Inr r1"
    and after: "metadata_after r1 = map_option (\<lambda>_. metadata_with_author author metadata) metadata"
    using metadata_after_report by blast
  obtain r2 where
    r2: "generate_html_report (frozen_clock t) (clock_after r1) title description sections theme
           author tags (metadata_after r1) custom_colors = Inr r2"
    using metadata_after_report by blast
  obtain r3 where
    r3: "generate_html_report (frozen_clock t) m title description sections theme author tags
           metadata custom_colors = Inr r3"
    using metadata_after_report by blast
  have "metadata_with_author author (metadata_after r1) = metadata_with_author author metadata"
    unfolding after by (rule metadata_with_author_idem)
  with r1 r2 have "returned r2 = returned r1"
    by (rule returned_frozen)
  moreover from r1 r3 have "returned r3 = returned r1"
    by (rule returned_frozen) simp
  ultimately show ?thesis using r1 r2 r3 by blast
qed

theorem generate_html_report_deterministic_witness:
  "\<exists>r1 r2.
      generate_html_report
        (frozen_clock \<lparr>year = 2024, month = 1, day = 15, hour = 9, minute = 30, second = 0\<rparr>)
        0 ''Analysis Report'' None (Some [''summary'', ''metadata'']) ''dark'' (Some ''Jane Smith'')
        (Some [''qc'']) (Some [(''Status'', PStr ''Complete'')]) None = Inr r1
    \<and> generate_html_report
        (frozen_clock \<lparr>year = 2024, month = 1, day = 15, hour = 9, minute = 30, second = 0\<rparr>)
        (clock_after r1) ''Analysis Report'' None (Some [''summary'', ''metadata'']) ''dark''
        (Some ''Jane Smith'') (Some [''qc'']) (metadata_after r1) None = Inr r2
    \<and> returned r2 = returned r1"
  using generate_html_report_deterministic
          [of "\<lparr>year = 2024, month = 1, day = 15, hour = 9, minute = 30, second = 0\<rparr>"
              0 "''Analysis Report''" None "Some [''summary'', ''metadata'']" "''dark''"
              "Some ''Jane Smith''" "Some [''qc'']" "Some [(''Status'', PStr ''Complete'')]" None 0]
  by blast

section \<open>Sections, navigation and placeholders\<close>

lemma navigation_shows_section:
  assumes "section \<in> set sections"
  shows \<open>sublist (''<li><a href="#'' @ section @ ''">'' @ str_title section @ ''</a></li>'')
           (generate_navigation sections)\<close>
proof -
  let ?link = \<open>\<lambda>section. ''<li><a href="#'' @ section @ ''">'' @ str_title section @ ''</a></li>''\<close>
  have "?link section \<in> set (map ?link sections)"
    using assms by simp
  then have c: "sublist (?link section) (concat (map ?link sections))"
    by (rule member_sublist_concat)
  show ?thesis
    unfolding generate_navigation_def Let_def
    by (rule sublist_appI1 [OF c] | rule sublist_appI2)+
qed

lemma navigation_default:
  \<open>generate_navigation [''summary'', ''metrics'', ''visualizations''] =
     ''\<newline>'' @
     ''    <nav>\<newline>'' @
     ''        <ul>\<newline>'' @
     ''            '' @ ''<li><a href="#summary">Summary</a></li>'' @
                        ''<li><a href="#metrics">Metrics</a></li>'' @
                        ''<li><a href="#visualizations">Visualizations</a></li>'' @ ''\<newline>'' @
     ''        </ul>\<newline>'' @
     ''    </nav>\<newline>'' @
     ''    ''\<close>
  by (simp add: generate_navigation_def str_title_defaults)

lemma default_report:
  \<open>\<exists>r. generate_html_report clk n title None None theme None None None None = Inr r
      \<and> sublist title (returned r)
      \<and> sublist (generate_navigation [''summary'', ''metrics'', ''visualizations'']) (returned r)
      \<and> sublist ''<li><a href="#summary">Summary</a></li>'' (returned r)
      \<and> sublist ''<li><a href="#metrics">Metrics</a></li>'' (returned r)
      \<and> sublist ''<li><a href="#visualizations">Visualizations</a></li>'' (returned r)\<close>
proof -
  let ?ss = "[''summary'', ''metrics'', ''visualizations'']"
  obtain r css_content where
    r: "generate_html_report clk n title None None theme None None None None = Inr r"
    and doc: "str_format HTML_TEMPLATE
       (html_arguments title None None css_content
          (generate_header title None (metadata_with_author None None))
          (generate_navigation (sections_or_default None))
          (concat (fst (section_placeholders clk n (sections_or_default None))))
          (fst (generate_footer clk (snd (section_placeholders clk n (sections_or_default None))) None)))
       = Inr (returned r)"
    using generate_html_report_result [of clk n title None None theme None None None None]
    by blast
  have t: "sublist title (returned r)"
    using doc by (rule report_contains_argument(1))
  have nav: "sublist (generate_navigation ?ss) (returned r)"
    using report_contains_argument(4) [OF doc] by (simp add: sections_or_default_def)
  have l1: \<open>sublist ''<li><a href="#summary">Summary</a></li>'' (generate_navigation ?ss)\<close>
    using navigation_shows_section [of "''summary''" ?ss] by (simp add: str_title_defaults)
  have l2: \<open>sublist ''<li><a href="#metrics">Metrics</a></li>'' (generate_navigation ?ss)\<close>
    using navigation_shows_section [of "''metrics''" ?ss] by (simp add: str_title_defaults)
  have l3: \<open>sublist ''<li><a href="#visualizations">Visualizations</a></li>'' (generate_navigation ?ss)\<close>
    using navigation_shows_section [of "''visualizations''" ?ss] by (simp add: str_title_defaults)
  from r t nav l1 [THEN sublist_order.order_trans, OF nav]
       l2 [THEN sublist_order.order_trans, OF nav] l3 [THEN sublist_order.order_trans, OF nav]
  show ?thesis by blast
qed

text \<open>
  Claim C6. When the sections are omitted, the report is the report of the sections
  \<open>summary\<close>, \<open>metrics\<close>, \<open>visualizations\<close>, in this order. For each of the themes
  \<open>light\<close>, \<open>dark\<close> and \<open>minimal\<close>, the report of a title alone is returned, contains the
  title and contains the navigation block of the three default sections, which has one
  link for each of them.
\<close>

theorem default_sections_report:
  \<open>sections_or_default None = [''summary'', ''metrics'', ''visualizations'']
   \<and> generate_html_report clk n title description None theme author tags metadata custom_colors
     = generate_html_report clk n title description
         (Some [''summary'', ''metrics'', ''visualizations'']) theme author tags metadata custom_colors
   \<and> generate_navigation [''summary'', ''metrics'', ''visualizations''] =
       ''\<newline>'' @
       ''    <nav>\<newline>'' @
       ''        <ul>\<newline>'' @
       ''            '' @ ''<li><a href="#summary">Summary</a></li>'' @
                          ''<li><a href="#metrics">Metrics</a></li>'' @
                          ''<li><a href="#visualizations">Visualizations</a></li>'' @ ''\<newline>'' @
       ''        </ul>\<newline>'' @
       ''    </nav>\<newline>'' @
       ''    ''
   \<and> (\<forall>theme \<in> {''light'', ''dark'', ''minimal''}.
        \<exists>r. generate_html_report clk n title None None theme None None None None = Inr r
          \<and> sublist title (returned r)
          \<and> sublist (generate_navigation [''summary'', ''metrics'', ''visualizations'']) (returned r)
          \<and> sublist ''<li><a href="#summary">Summary</a></li>'' (returned r)
          \<and> sublist ''<li><a href="#metrics">Metrics</a></li>'' (returned r)
          \<and> sublist ''<li><a href="#visualizations">Visualizations</a></li>'' (returned r))\<close>
proof (intro conjI ballI)
  show "sections_or_default None = [''summary'', ''metrics'', ''visualizations'']"
    by (simp add: sections_or_default_def)
  show "generate_html_report clk n title description None theme author tags metadata custom_colors
     = generate_html_report clk n title description
         (Some [''summary'', ''metrics'', ''visualizations'']) theme author tags metadata custom_colors"
    by (simp add: generate_html_report_def sections_or_default_def)
  show \<open>generate_navigation [''summary'', ''metrics'', ''visualizations''] =
       ''\<newline>'' @
       ''    <nav>\<newline>'' @
       ''        <ul>\<newline>'' @
       ''            '' @ ''<li><a href="#summary">Summary</a></li>'' @
                          ''<li><a href="#metrics">Metrics</a></li>'' @
                          ''<li><a href="#visualizations">Visualizations</a></li>'' @ ''\<newline>'' @
       ''        </ul>\<newline>'' @
       ''    </nav>\<newline>'' @
       ''    ''\<close>
    by (rule navigation_default)
next
  fix theme' :: string
  show \<open>\<exists>r. generate_html_report clk n title None None theme' None None None None = Inr r
          \<and> sublist title (returned r)
          \<and> sublist (generate_navigation [''summary'', ''metrics'', ''visualizations'']) (returned r)
          \<and> sublist ''<li><a href="#summary">Summary</a></li>'' (returned r)
          \<and> sublist ''<li><a href="#metrics">Metrics</a></li>'' (returned r)
          \<and> sublist ''<li><a href="#visualizations">Visualizations</a></li>'' (returned r)\<close>
    by (rule default_report)
qed

theorem default_sections_report_witness:
  \<open>\<exists>r. generate_html_report
          (frozen_clock \<lparr>year = 2024, month = 1, day = 15, hour = 9, minute = 30, second = 0\<rparr>)
          0 ''Analysis Report'' None None ''minimal'' None None None None = Inr r
      \<and> sublist ''Analysis Report'' (returned r)
      \<and> sublist ''<li><a href="#summary">Summary</a></li>'' (returned r)
      \<and> sublist ''<li><a href="#metrics">Metrics</a></li>'' (returned r)
      \<and> sublist ''<li><a href="#visualizations">Visualizations</a></li>'' (returned r)\<close>
proof -
  have h: "''minimal'' \<in> {''light'', ''dark'', ''minimal''}" by simp
  from default_sections_report
         [of "frozen_clock \<lparr>year = 2024, month = 1, day = 15, hour = 9, minute = 30, second = 0\<rparr>"
             0 "''Analysis Report''"]
  have \<open>\<forall>theme \<in> {''light'', ''dark'', ''minimal''}.
        \<exists>r. generate_html_report
               (frozen_clock \<lparr>year = 2024, month = 1, day = 15, hour = 9, minute = 30, second = 0\<rparr>)
               0 ''Analysis Report'' None None theme None None None None = Inr r
          \<and> sublist ''Analysis Report'' (returned r)
          \<and> sublist (generate_navigation [''summary'', ''metrics'', ''visualizations'']) (returned r)
          \<and> sublist ''<li><a href="#summary">Summary</a></li>'' (returned r)
          \<and> sublist ''<li><a href="#metrics">Metrics</a></li>'' (returned r)
          \<and> sublist ''<li><a href="#visualizations">Visualizations</a></li>'' (returned r)\<close>
    by blast
  from bspec [OF this h] show ?thesis by blast
qed










end
